theory Spec2Isabelle
  imports Main "HOL-Library.Char_ord"
begin

section \<open>The standard library, as far as packngo.go relies on it\<close>

text \<open>
  \<^verbatim>\<open>packngo.go\<close> is a thin layer over Go's standard library. The functions of the
  program itself (\<open>populateRate\<close>, \<open>Error\<close>, \<open>NewRequest\<close>, \<open>Do\<close>, \<open>CheckResponse\<close>)
  are translated line by line further down. The library calls they make are modelled
  here: the small ones (\<open>strconv\<close>, the header map, the method check of
  \<open>http.NewRequest\<close>, \<open>io.Copy\<close>, \<open>ioutil.ReadAll\<close>) by their Go source, the large ones
  (URL parsing and resolution, JSON syntax, the transport) as parameters of the
  functions that call them, so that every theorem holds for whatever they compute.
\<close>

subsection \<open>strconv\<close>

text \<open>
  \<open>strconv.ParseInt\<close> and \<open>strconv.Atoi\<close> return a value and an error. The value is
  not always 0 when the error is set: a range error comes with the nearest
  representable integer. \<open>populateRate\<close> drops the error and keeps the value, so the
  value is modelled in full. Only base 10 is used by the program. \<open>int\<close> is taken
  to be 64 bits wide (\<open>IntSize\<close>), as on every 64-bit platform.
\<close>

datatype NumError = ErrSyntax | ErrRange

definition IntSize :: nat where
  "IntSize = 64"

definition isDigit :: "char \<Rightarrow> bool" where
  "isDigit c = (CHR ''0'' \<le> c \<and> c \<le> CHR ''9'')"

definition digitVal :: "char \<Rightarrow> nat" where
  "digitVal c = of_char c - of_char CHR ''0''"

definition cutoff64 :: nat where
  "cutoff64 = (2 ^ 64 - 1) div 10 + 1"

text \<open>
  The loop of \<open>ParseUint\<close> over the bytes of the string, \<open>n\<close> the value so far in a
  \<open>uint64\<close>. A byte that is no decimal digit is a syntax error with value 0. An
  overflow is a range error with value \<open>maxVal\<close>, and it returns at once, before the
  bytes that follow are looked at.
\<close>

fun ParseUint_loop :: "nat \<Rightarrow> nat \<Rightarrow> string \<Rightarrow> nat \<times> NumError option" where
  "ParseUint_loop maxVal n [] = (n, None)"
| "ParseUint_loop maxVal n (c # cs) =
     (if \<not> isDigit c then (0, Some ErrSyntax)
      else if n \<ge> cutoff64 then (maxVal, Some ErrRange)
      else
        let n10 = (n * 10) mod 2 ^ 64;
            n1 = (n10 + digitVal c) mod 2 ^ 64
        in if n1 < n10 \<or> n1 > maxVal then (maxVal, Some ErrRange)
           else ParseUint_loop maxVal n1 cs)"

definition ParseUint :: "string \<Rightarrow> nat \<Rightarrow> nat \<times> NumError option" where
  "ParseUint s bitSize =
     (if s = [] then (0, Some ErrSyntax)
      else ParseUint_loop (2 ^ (if bitSize = 0 then IntSize else bitSize) - 1) 0 s)"

definition ParseInt :: "string \<Rightarrow> nat \<Rightarrow> int \<times> NumError option" where
  "ParseInt s bitSize =
     (if s = [] then (0, Some ErrSyntax)
      else
        let neg = (hd s = CHR ''-'');
            s1 = (if hd s = CHR ''+'' \<or> hd s = CHR ''-'' then tl s else s);
            r = ParseUint s1 bitSize
        in if snd r = Some ErrSyntax then (0, Some ErrSyntax)
           else
             let cutoff = 2 ^ ((if bitSize = 0 then IntSize else bitSize) - 1)
             in if \<not> neg \<and> fst r \<ge> cutoff then (int cutoff - 1, Some ErrRange)
                else if neg \<and> fst r > cutoff then (- int cutoff, Some ErrRange)
                else (if neg then - int (fst r) else int (fst r), None))"

definition Atoi :: "string \<Rightarrow> int \<times> NumError option" where
  "Atoi s = ParseInt s 0"

subsection \<open>net/http: the header map\<close>

text \<open>
  \<open>http.Header\<close> is \<open>map[string][]string\<close>. \<open>Get\<close> and \<open>Add\<close> canonicalise the key
  first: a key made of token bytes only has the first letter and every letter after a
  hyphen in upper case and the other letters in lower case; any other key is left as
  it is.
\<close>

type_synonym Header = "string \<rightharpoonup> string list"

definition isLower :: "char \<Rightarrow> bool" where
  "isLower c = (CHR ''a'' \<le> c \<and> c \<le> CHR ''z'')"

definition isUpper :: "char \<Rightarrow> bool" where
  "isUpper c = (CHR ''A'' \<le> c \<and> c \<le> CHR ''Z'')"

definition isTokenByte :: "char \<Rightarrow> bool" where
  "isTokenByte c = (isLower c \<or> isUpper c \<or> isDigit c \<or> c \<in> set ''!#$%&*+-.^_`|~'' \<or> c = CHR 0x27)"

definition toUpper :: "char \<Rightarrow> char" where
  "toUpper c = char_of (of_char c - (32 :: nat))"

definition toLower :: "char \<Rightarrow> char" where
  "toLower c = char_of (of_char c + (32 :: nat))"

fun canonical_loop :: "bool \<Rightarrow> string \<Rightarrow> string" where
  "canonical_loop upper [] = []"
| "canonical_loop upper (c # cs) =
     (let c' = (if upper \<and> isLower c then toUpper c
                else if \<not> upper \<and> isUpper c then toLower c
                else c)
      in c' # canonical_loop (c' = CHR ''-'') cs)"

definition CanonicalMIMEHeaderKey :: "string \<Rightarrow> string" where
  "CanonicalMIMEHeaderKey s = (if list_all isTokenByte s then canonical_loop True s else s)"

definition Header_Get :: "Header \<Rightarrow> string \<Rightarrow> string" where
  "Header_Get h key =
     (case h (CanonicalMIMEHeaderKey key) of
        None \<Rightarrow> []
      | Some [] \<Rightarrow> []
      | Some (v # vs) \<Rightarrow> v)"

definition Header_Add :: "Header \<Rightarrow> string \<Rightarrow> string \<Rightarrow> Header" where
  "Header_Add h key v =
     (let k = CanonicalMIMEHeaderKey key
      in h(k \<mapsto> (case h k of None \<Rightarrow> [v] | Some vs \<Rightarrow> vs @ [v])))"

subsection \<open>io: streams and writers\<close>

text \<open>
  A library error, by its message. The body of a response is a stream
  (\<open>io.ReadCloser\<close>): \<open>pending\<close> lists what the successive calls of \<open>Read\<close> will
  deliver, \<open>fault\<close> is how the stream ends after that (\<open>None\<close> for \<open>io.EOF\<close>, or
  the error a \<open>Read\<close> reports), \<open>closed\<close> whether \<open>Close\<close> was called.
\<close>

datatype lib_error = Err string

record ReadCloser =
  pending :: "string list"
  fault :: "lib_error option"
  closed :: bool

definition Body_Close :: "ReadCloser \<Rightarrow> ReadCloser" where
  "Body_Close b = b\<lparr>closed := True\<rparr>"

text \<open>
  \<open>ioutil.ReadAll\<close> reads to the end of the stream and returns what it read with the
  error that stopped it, \<open>nil\<close> when that was \<open>io.EOF\<close>. A closed body delivers nothing.
\<close>

definition ReadAll :: "ReadCloser \<Rightarrow> ReadCloser \<times> string \<times> lib_error option" where
  "ReadAll b =
     (if closed b then (b, [], Some (Err ''http: read on closed response body''))
      else (b\<lparr>pending := []\<rparr>, concat (pending b), fault b))"

text \<open>
  The \<open>Write\<close> method of an \<open>io.Writer\<close> is a function of the writer and the bytes; it
  returns the writer after the call, the number of bytes it took and an error.

  The loop of \<open>io.Copy\<close>: every \<open>Read\<close> that delivers bytes is followed by one \<open>Write\<close>
  of exactly these bytes; the loop stops at the first write error or short write, or
  when the stream ends. The result is the writer, the chunks not yet read, the number
  of bytes written and the error.
\<close>

type_synonym 'w Write = "'w \<Rightarrow> string \<Rightarrow> 'w \<times> int \<times> lib_error option"

fun Copy_loop :: "'w Write \<Rightarrow> lib_error option \<Rightarrow> 'w \<Rightarrow> int \<Rightarrow> string list \<Rightarrow>
    'w \<times> string list \<times> int \<times> lib_error option" where
  "Copy_loop wr end w written [] = (w, [], written, end)"
| "Copy_loop wr end w written (p # ps) =
     (if p = [] then Copy_loop wr end w written ps
      else
        (case wr w p of (w', nw0, ew0) \<Rightarrow>
           let bad = (nw0 < 0 \<or> int (length p) < nw0);
               nw = (if bad then 0 else nw0);
               ew = (if bad \<and> ew0 = None then Some (Err ''invalid write result'') else ew0);
               written' = written + nw
           in if ew \<noteq> None then (w', ps, written', ew)
              else if int (length p) \<noteq> nw then (w', ps, written', Some (Err ''short write''))
              else Copy_loop wr end w' written' ps))"

definition io_Copy :: "'w Write \<Rightarrow> 'w \<Rightarrow> ReadCloser \<Rightarrow> 'w \<times> ReadCloser \<times> int \<times> lib_error option" where
  "io_Copy wr dst src =
     (if closed src then (dst, src, 0, Some (Err ''http: read on closed response body''))
      else
        (case Copy_loop wr (fault src) dst 0 (pending src) of
           (w', rest, written, err) \<Rightarrow> (w', src\<lparr>pending := rest\<rparr>, written, err)))"

subsection \<open>fmt\<close>

text \<open>
  The verb \<open>%d\<close> prints an integer in decimal.
\<close>

fun digits :: "nat \<Rightarrow> string" where
  "digits n = (if n < 10 then [char_of (48 + n)] else digits (n div 10) @ [char_of (48 + n mod 10)])"

declare digits.simps [simp del]

definition FormatInt :: "int \<Rightarrow> string" where
  "FormatInt i = (if i < 0 then CHR ''-'' # digits (nat (- i)) else digits (nat i))"

subsection \<open>net/url\<close>

text \<open>
  URL parsing, reference resolution and printing are parameters: \<open>url.Parse\<close>,
  \<open>(*URL).ResolveReference\<close>, \<open>(*URL).String\<close>, and the normalisation
  \<open>http.NewRequest\<close> applies to the host of the URL it has parsed.
\<close>

record 'u url_pkg =
  url_Parse :: "string \<Rightarrow> lib_error + 'u"
  url_ResolveReference :: "'u \<Rightarrow> 'u \<Rightarrow> 'u"
  url_String :: "'u \<Rightarrow> string"
  removeEmptyPort :: "'u \<Rightarrow> 'u"

subsection \<open>encoding/json\<close>

text \<open>
  A JSON document. The syntax layer of the decoder (which byte strings are JSON, and
  which document they denote) is a parameter, \<open>json_parse\<close>; so are the matching of an
  object key against a field name (an exact match, or a case-insensitive one) and the
  decoding of a document into the library's own \<open>http.Response\<close> struct. What is fixed
  here is how \<open>json.Unmarshal\<close> stores a document into a struct of this program, by the
  library's rules: a key is looked up among the exported fields; \<open>null\<close> sets a pointer
  to \<open>nil\<close> and leaves a string as it is; a JSON string is stored into a string field;
  any other document is decoded into what the pointer points to, a new zero value when
  the pointer is \<open>nil\<close>; a document of the wrong kind leaves the field as it is.
\<close>

datatype json =
    JNull
  | JBool bool
  | JNumber string
  | JString string
  | JArray "json list"
  | JObject "(string \<times> json) list"

section \<open>The data of packngo.go\<close>

definition libraryVersion :: string where
  "libraryVersion = ''0.1.0''"

definition baseURL :: string where
  "baseURL = ''https://api.packet.net/''"

definition userAgent :: string where
  "userAgent = ''packngo/'' @ libraryVersion"

definition mediaType :: string where
  "mediaType = ''application/json''"

definition headerRateLimit :: string where
  "headerRateLimit = ''X-RateLimit-Limit''"

definition headerRateRemaining :: string where
  "headerRateRemaining = ''X-RateLimit-Remaining''"

definition headerRateReset :: string where
  "headerRateReset = ''X-RateLimit-Reset''"

text \<open>
  \<open>time.Time\<close>: the zero value, or the result of \<open>time.Unix sec nsec\<close>.
\<close>

datatype Time = ZeroTime | Unix int int

text \<open>
  Modelled from the spec: the declarations of \<open>Rate\<close> and \<open>Timestamp\<close> are not in
  \<^verbatim>\<open>packngo.go\<close>. The spec's rate snapshot is the triple of request limit, requests
  remaining and reset timestamp; the field names and their types are the ones
  \<open>populateRate\<close> assigns to (two \<open>int\<close>s and a \<open>Timestamp\<close> wrapping a \<open>time.Time\<close>).
\<close>

datatype Timestamp = Timestamp Time

record Rate =
  RequestLimit :: int
  RequestsRemaining :: int
  Reset :: Timestamp

definition zero_Rate :: Rate where
  "zero_Rate = \<lparr>RequestLimit = 0, RequestsRemaining = 0, Reset = Timestamp ZeroTime\<rparr>"

text \<open>
  \<open>http.Request\<close> and \<open>http.Response\<close>, the fields the program reads or writes. A URL
  is a value of the library's (\<open>'u\<close>); pointers that may be \<open>nil\<close> are options. The
  \<open>Body\<close> field of a response refers to a stream; the state of that stream is passed
  to and returned by the functions that read or close it.
\<close>

record 'u Http_Request =
  Method :: string
  URL :: "'u option"
  req_Header :: Header
  req_Body :: string
  Close :: bool

record 'u Http_Response =
  StatusCode :: int
  Header :: Header
  Request :: "'u Http_Request option"

definition zero_Http_Response :: "'u Http_Response" where
  "zero_Http_Response = \<lparr>StatusCode = 0, Header = Map.empty, Request = None\<rparr>"

text \<open>
  \<open>type Response struct { *http.Response; Rate }\<close>
\<close>

record 'u Response =
  http_Response :: "'u Http_Response"
  Rate :: Rate

text \<open>
  \<open>type ErrorResponse struct { Response *http.Response; Message string }\<close>. The
  pointer is an option holding the response it points to.
\<close>

record 'u ErrorResponse =
  Response :: "'u Http_Response option"
  Message :: string

text \<open>
  A value of Go's \<open>error\<close> interface as \<open>Do\<close> returns it: an \<open>*ErrorResponse\<close>, or an
  error of the library's.
\<close>

datatype 'u go_error = ApiError "'u ErrorResponse" | LibError lib_error

text \<open>
  The client. \<open>client\<close> is the transport (\<open>c.client.Do\<close>): it answers a request with
  an error, or with a response and the stream of its body. The service fields
  (\<open>Plans\<close>, \<open>Users\<close>, ...) play no part in this file and are left out.
\<close>

record 'u Client =
  client :: "'u Http_Request \<Rightarrow> lib_error + ('u Http_Response \<times> ReadCloser)"
  BaseURL :: 'u
  UserAgent :: string
  ConsumerToken :: string
  ApiKey :: string
  RateLimit :: Rate

section \<open>populateRate\<close>

definition populateRate :: "'u Response \<Rightarrow> 'u Response" where
  "populateRate r =
     (let h = Header (http_Response r);
          limit = Header_Get h headerRateLimit;
          r1 = (if limit \<noteq> [] then r\<lparr>Rate := (Rate r)\<lparr>RequestLimit := fst (Atoi limit)\<rparr>\<rparr> else r);
          remaining = Header_Get h headerRateRemaining;
          r2 = (if remaining \<noteq> []
                then r1\<lparr>Rate := (Rate r1)\<lparr>RequestsRemaining := fst (Atoi remaining)\<rparr>\<rparr> else r1);
          reset = Header_Get h headerRateReset
      in if reset \<noteq> []
         then (let v = fst (ParseInt reset 64)
               in if v \<noteq> 0 then r2\<lparr>Rate := (Rate r2)\<lparr>Reset := Timestamp (Unix v 0)\<rparr>\<rparr> else r2)
         else r2)"

section \<open>ErrorResponse.Error\<close>

text \<open>
  \<open>fmt.Sprintf("%v %v: %d %v", r.Response.Request.Method, r.Response.Request.URL,
  r.Response.StatusCode, r.Message)\<close>. Evaluating the arguments dereferences
  \<open>r.Response\<close> and \<open>r.Response.Request\<close>; a \<open>nil\<close> there is a run-time panic. A \<open>nil\<close>
  \<open>*url.URL\<close> is printed by \<open>%v\<close> as \<open><nil>\<close>, any other by its \<open>String\<close> method.
\<close>

datatype panic = NilPointerDereference

definition Error :: "'u url_pkg \<Rightarrow> 'u ErrorResponse \<Rightarrow> panic + string" where
  "Error U r =
     (case Response r of
        None \<Rightarrow> Inl NilPointerDereference
      | Some resp \<Rightarrow>
          (case Request resp of
             None \<Rightarrow> Inl NilPointerDereference
           | Some req \<Rightarrow>
               Inr (Method req @ '' '' @ (case URL req of None \<Rightarrow> ''<nil>'' | Some u \<Rightarrow> url_String U u)
                    @ '': '' @ FormatInt (StatusCode resp) @ '' '' @ Message r)))"

section \<open>CheckResponse\<close>

record 'u json_pkg =
  json_parse :: "string \<Rightarrow> json option"
  json_matches :: "string \<Rightarrow> string \<Rightarrow> bool"
  json_decode_Response :: "json \<Rightarrow> 'u Http_Response \<Rightarrow> 'u Http_Response"

text \<open>
  \<open>json.Unmarshal(data, errorResponse)\<close>, one member of the top-level object at a time.
  \<open>ErrorResponse\<close> has two exported fields without tags, so its keys are \<open>Response\<close> and
  \<open>Message\<close>. The state is the response \<open>r\<close> that \<open>CheckResponse\<close> was given, the error
  being filled in, and whether its \<open>Response\<close> pointer still points to \<open>r\<close>: while it
  does, decoding through the pointer changes \<open>r\<close> itself.
\<close>

fun decode_member :: "'u json_pkg \<Rightarrow> bool \<times> 'u Http_Response \<times> 'u ErrorResponse \<Rightarrow> string \<times> json \<Rightarrow>
    bool \<times> 'u Http_Response \<times> 'u ErrorResponse" where
  "decode_member J (alias, r, e) (k, v) =
     (if json_matches J ''Response'' k then
        (case v of
           JNull \<Rightarrow> (False, r, e\<lparr>Response := None\<rparr>)
         | _ \<Rightarrow>
            (case Response e of
               None \<Rightarrow> (False, r, e\<lparr>Response := Some (json_decode_Response J v zero_Http_Response)\<rparr>)
             | Some x \<Rightarrow>
                 let x' = json_decode_Response J v x
                 in (alias, if alias then x' else r, e\<lparr>Response := Some x'\<rparr>)))
      else if json_matches J ''Message'' k then
        (case v of
           JString s \<Rightarrow> (alias, r, e\<lparr>Message := s\<rparr>)
         | _ \<Rightarrow> (alias, r, e))
      else (alias, r, e))"

text \<open>
  The error \<open>json.Unmarshal\<close> returns is dropped by \<open>CheckResponse\<close> and is not
  modelled. Bytes that are not JSON, and a document that is not an object, store
  nothing.
\<close>

definition json_Unmarshal :: "'u json_pkg \<Rightarrow> string \<Rightarrow> 'u Http_Response \<Rightarrow> 'u ErrorResponse \<Rightarrow>
    'u Http_Response \<times> 'u ErrorResponse" where
  "json_Unmarshal J data r e =
     (case json_parse J data of
        Some (JObject kvs) \<Rightarrow>
          (case foldl (decode_member J) (True, r, e) kvs of (alias, r', e') \<Rightarrow> (r', e'))
      | _ \<Rightarrow> (r, e))"

text \<open>
  \<open>CheckResponse r\<close>, with the stream \<open>r.Body\<close> refers to. The result is \<open>r\<close> and the
  stream after the call, and the error (\<open>None\<close> for \<open>nil\<close>).
\<close>

definition CheckResponse :: "'u json_pkg \<Rightarrow> 'u Http_Response \<Rightarrow> ReadCloser \<Rightarrow>
    'u Http_Response \<times> ReadCloser \<times> 'u ErrorResponse option" where
  "CheckResponse J r body =
     (if 200 \<le> StatusCode r \<and> StatusCode r \<le> 299 then (r, body, None)
      else
        (let errorResponse = \<lparr>Response = Some r, Message = []\<rparr>
         in case ReadAll body of (body', data, err) \<Rightarrow>
              if err = None \<and> length data > 0
              then (case json_Unmarshal J data r errorResponse of (r', e) \<Rightarrow> (r', body', Some e))
              else (r, body', Some errorResponse)))"

text \<open>
  Whether a body, read as JSON, is an object with a key that matches the field
  \<open>Response\<close> of \<open>ErrorResponse\<close>.
\<close>

definition names_Response :: "'u json_pkg \<Rightarrow> string \<Rightarrow> bool" where
  "names_Response J data =
     (case json_parse J data of
        Some (JObject kvs) \<Rightarrow> list_ex (\<lambda>(k, v). json_matches J ''Response'' k) kvs
      | _ \<Rightarrow> False)"

section \<open>NewRequest\<close>

text \<open>
  \<open>http.NewRequest\<close>: an empty method means \<open>GET\<close>; a method that is not a token is
  refused; the URL string is parsed; the request starts with an empty header map.
\<close>

definition validMethod :: "string \<Rightarrow> bool" where
  "validMethod method = (method \<noteq> [] \<and> list_all isTokenByte method)"

definition http_NewRequest :: "'u url_pkg \<Rightarrow> string \<Rightarrow> string \<Rightarrow> string \<Rightarrow> lib_error + 'u Http_Request" where
  "http_NewRequest U method urlStr body =
     (let method' = (if method = [] then ''GET'' else method)
      in if \<not> validMethod method' then Inl (Err ''net/http: invalid method'')
         else
           (case url_Parse U urlStr of
              Inl err \<Rightarrow> Inl err
            | Inr u \<Rightarrow>
                Inr \<lparr>Method = method', URL = Some (removeEmptyPort U u), req_Header = Map.empty,
                     req_Body = body, Close = False\<rparr>))"

text \<open>
  \<open>c.NewRequest(method, path, body)\<close>. \<open>body\<close> is \<open>None\<close> for a \<open>nil\<close> interface;
  \<open>marshal\<close> is the JSON encoding of a body value (\<open>json.Marshal\<close>), to which
  \<open>Encoder.Encode\<close> adds a newline.
\<close>

definition NewRequest :: "'u url_pkg \<Rightarrow> ('b \<Rightarrow> lib_error + string) \<Rightarrow> 'u Client \<Rightarrow>
    string \<Rightarrow> string \<Rightarrow> 'b option \<Rightarrow> lib_error + 'u Http_Request" where
  "NewRequest U marshal c method path body =
     (case url_Parse U path of
        Inl err \<Rightarrow> Inl err
      | Inr rel \<Rightarrow>
          let u = url_ResolveReference U (BaseURL c) rel
          in (case (case body of None \<Rightarrow> Inr [] | Some b \<Rightarrow> map_sum id (\<lambda>j. j @ [CHR 0x0A]) (marshal b)) of
                Inl err \<Rightarrow> Inl err
              | Inr buf \<Rightarrow>
                  (case http_NewRequest U method (url_String U u) buf of
                     Inl err \<Rightarrow> Inl err
                   | Inr req \<Rightarrow>
                       let req1 = req\<lparr>Close := True\<rparr>;
                           h1 = Header_Add (req_Header req1) ''X-Auth-Token'' (ApiKey c);
                           h2 = Header_Add h1 ''X-Consumer-Token'' (ConsumerToken c);
                           h3 = Header_Add h2 ''Content-Type'' mediaType;
                           h4 = Header_Add h3 ''Accept'' mediaType;
                           h5 = Header_Add h4 ''User-Agent'' userAgent
                       in Inr (req1\<lparr>req_Header := h5\<rparr>))))"

section \<open>Do\<close>

text \<open>
  The destination \<open>v\<close> of \<open>Do\<close> is an interface value: \<open>nil\<close>, or a value with the
  methods of its type. \<open>Write\<close> is its \<open>Write\<close> method when it implements \<open>io.Writer\<close>.
  \<open>Decode\<close> is what \<open>json.NewDecoder(resp.Body).Decode(v)\<close> does with the stream and the
  value, which depends on the type of the value: it returns both after the call and
  the error.
\<close>

type_synonym 'v Decode = "ReadCloser \<Rightarrow> 'v \<Rightarrow> ReadCloser \<times> 'v \<times> lib_error option"

datatype 'v dest = NoDest | Dest (val: 'v) (Write: "'v Write option") (Decode: "'v Decode")

text \<open>
  What a call of \<open>Do\<close> leaves behind: the two results, the client, the destination and
  the stream of the response body (\<open>None\<close> when there was no response).
\<close>

record ('u, 'v) Do_result =
  ret_Response :: "'u Response option"
  ret_error :: "'u go_error option"
  post_Client :: "'u Client"
  post_v :: "'v dest"
  post_Body :: "ReadCloser option"

text \<open>
  \<open>c.Do(req, v)\<close>. The deferred \<open>resp.Body.Close()\<close> runs on every return after the
  transport has answered; \<open>response\<close> embeds the pointer \<open>resp\<close>, so it shows the response
  as \<open>CheckResponse\<close> left it.
\<close>

definition Do :: "'u json_pkg \<Rightarrow> 'u Client \<Rightarrow> 'u Http_Request \<Rightarrow> 'v dest \<Rightarrow> ('u, 'v) Do_result" where
  "Do J c req v =
     (case client c req of
        Inl err \<Rightarrow>
          \<lparr>ret_Response = None, ret_error = Some (LibError err), post_Client = c, post_v = v,
           post_Body = None\<rparr>
      | Inr (resp, body) \<Rightarrow>
          let response = populateRate \<lparr>http_Response = resp, Rate = zero_Rate\<rparr>;
              c1 = c\<lparr>RateLimit := Rate response\<rparr>
          in (case CheckResponse J resp body of
                (resp1, body1, Some e) \<Rightarrow>
                  \<lparr>ret_Response = Some (response\<lparr>http_Response := resp1\<rparr>),
                   ret_error = Some (ApiError e), post_Client = c1, post_v = v,
                   post_Body = Some (Body_Close body1)\<rparr>
              | (resp1, body1, None) \<Rightarrow>
                  (case v of
                     NoDest \<Rightarrow>
                       \<lparr>ret_Response = Some (response\<lparr>http_Response := resp1\<rparr>),
                        ret_error = None, post_Client = c1, post_v = v,
                        post_Body = Some (Body_Close body1)\<rparr>
                   | Dest x (Some wr) dec \<Rightarrow>
                       (case io_Copy wr x body1 of (x', body2, written, cerr) \<Rightarrow>
                          \<lparr>ret_Response = Some (response\<lparr>http_Response := resp1\<rparr>),
                           ret_error = None, post_Client = c1, post_v = Dest x' (Some wr) dec,
                           post_Body = Some (Body_Close body2)\<rparr>)
                   | Dest x None dec \<Rightarrow>
                       (case dec body1 x of
                          (body2, x', Some err) \<Rightarrow>
                            \<lparr>ret_Response = Some (response\<lparr>http_Response := resp1\<rparr>),
                             ret_error = Some (LibError err), post_Client = c1,
                             post_v = Dest x' None dec, post_Body = Some (Body_Close body2)\<rparr>
                        | (body2, x', None) \<Rightarrow>
                            \<lparr>ret_Response = Some (response\<lparr>http_Response := resp1\<rparr>),
                             ret_error = None, post_Client = c1,
                             post_v = Dest x' None dec, post_Body = Some (Body_Close body2)\<rparr>))))"

section \<open>Inputs for the worked examples\<close>

text \<open>
  The header map of a message that carried the given header lines, built the way the
  library builds it when it reads a message: one \<open>Add\<close> per line.
\<close>

definition header_of :: "(string \<times> string) list \<Rightarrow> Header" where
  "header_of kvs = foldl (\<lambda>h (k, v). Header_Add h k v) Map.empty kvs"

definition response_with :: "int \<Rightarrow> (string \<times> string) list \<Rightarrow> 'u Http_Response" where
  "response_with code kvs = \<lparr>StatusCode = code, Header = header_of kvs, Request = None\<rparr>"

text \<open>
  \<open>Response{Response: resp}\<close>, the wrapper as \<open>Do\<close> creates it.
\<close>

definition wrap :: "'u Http_Response \<Rightarrow> 'u Response" where
  "wrap resp = \<lparr>http_Response = resp, Rate = zero_Rate\<rparr>"

text \<open>
  What \<open>r.Header.Get\<close> returns in \<open>populateRate\<close>.
\<close>

definition rate_header :: "'u Response \<Rightarrow> string \<Rightarrow> string" where
  "rate_header r key = Header_Get (Header (http_Response r)) key"

text \<open>
  \<open>NewClient\<close> fills in the client; \<open>httpClient\<close> is the transport and \<open>base\<close> the URL
  that \<open>url.Parse\<close> makes of \<open>baseURL\<close>. The service fields and the TLS setting of the
  default transport are left out.
\<close>

definition NewClient :: "('u Http_Request \<Rightarrow> lib_error + ('u Http_Response \<times> ReadCloser)) \<Rightarrow> 'u \<Rightarrow>
    string \<Rightarrow> string \<Rightarrow> 'u Client" where
  "NewClient httpClient base consumerToken apiKey =
     \<lparr>client = httpClient, BaseURL = base, UserAgent = userAgent, ConsumerToken = consumerToken,
      ApiKey = apiKey, RateLimit = zero_Rate\<rparr>"

text \<open>
  A stream that delivers the given chunks and then ends; a transport that answers
  every request with the given response and body, and one that fails.
\<close>

definition body_of :: "string list \<Rightarrow> ReadCloser" where
  "body_of chunks = \<lparr>pending = chunks, fault = None, closed = False\<rparr>"

definition answers :: "'u Http_Response \<Rightarrow> string list \<Rightarrow> 'u Http_Request \<Rightarrow> lib_error + ('u Http_Response \<times> ReadCloser)" where
  "answers resp chunks req = Inr (resp\<lparr>Request := Some req\<rparr>, body_of chunks)"

definition refuses :: "string \<Rightarrow> 'u Http_Request \<Rightarrow> lib_error + ('u Http_Response \<times> ReadCloser)" where
  "refuses msg req = Inl (Err msg)"

text \<open>
  A JSON package for the examples: it reads the two bodies that occur in them, matches
  keys without regard to the case of ASCII letters, and leaves a response it is asked
  to decode into as it is.
\<close>

definition ascii_lower :: "string \<Rightarrow> string" where
  "ascii_lower s = map (\<lambda>c. if isUpper c then toLower c else c) s"

definition demo_json :: "'u json_pkg" where
  \<open>demo_json =
     \<lparr>json_parse = (\<lambda>s.
          if s = ''{"message":"invalid hostname"}'' then Some (JObject [(''message'', JString ''invalid hostname'')])
          else if s = ''{"response":null}'' then Some (JObject [(''response'', JNull)])
          else None),
      json_matches = (\<lambda>field key. ascii_lower field = ascii_lower key),
      json_decode_Response = (\<lambda>j r. r)\<rparr>\<close>

definition get_req :: "string Http_Request" where
  "get_req = \<lparr>Method = ''GET'', URL = Some ''https://api.packet.net/plans'', req_Header = Map.empty,
     req_Body = [], Close = True\<rparr>"

text \<open>
  Two writers over a byte string: one that appends whatever it is given (as
  \<open>bytes.Buffer\<close> does), one that has room for \<open>n\<close> bytes and fails when they are used
  up. \<open>accepts_all\<close> says of a writer that it takes all it is given and reports no error.
\<close>

definition buffer_Write :: "string Write" where
  "buffer_Write b p = (b @ p, int (length p), None)"

definition full_after :: "nat \<Rightarrow> string Write" where
  "full_after n b p =
     (if length b + length p \<le> n then (b @ p, int (length p), None)
      else (b @ take (n - length b) p, int (n - length b), Some (Err ''no space left on device'')))"

definition accepts_all :: "'w Write \<Rightarrow> bool" where
  "accepts_all wr = (\<forall>w p. fst (snd (wr w p)) = int (length p) \<and> snd (snd (wr w p)) = None)"

text \<open>
  A destination that is not a writer and whose decoding fails, and a rate snapshot
  left from an earlier exchange.
\<close>

definition json_fails :: "'v Decode" where
  "json_fails body x = (body\<lparr>pending := []\<rparr>, x, Some (Err ''invalid character in JSON value''))"

definition stale_Rate :: Rate where
  "stale_Rate = \<lparr>RequestLimit = 100, RequestsRemaining = 99, Reset = Timestamp (Unix 1420070400 0)\<rparr>"

text \<open>
  A URL package for the examples: a URL is its string; a string with a percent sign is
  refused (the examples use \<open>%zz\<close>, an invalid escape); a reference is resolved by
  appending it to the base, which is right for a base that ends in a slash and a
  relative path without a leading slash.
\<close>

definition demo_url :: "string url_pkg" where
  "demo_url =
     \<lparr>url_Parse = (\<lambda>s. if CHR ''%'' \<in> set s then Inl (Err ''invalid URL escape'') else Inr s),
      url_ResolveReference = (\<lambda>base rel. base @ rel),
      url_String = (\<lambda>u. u),
      removeEmptyPort = (\<lambda>u. u)\<rparr>"

text \<open>
  Two body values for \<open>NewRequest\<close>: a struct with a \<open>hostname\<close> field, which
  \<open>json.Marshal\<close> encodes, and a channel, which it refuses.
\<close>

datatype demo_body = Hostname string | Channel

definition demo_marshal :: "demo_body \<Rightarrow> lib_error + string" where
  \<open>demo_marshal b =
     (case b of
        Hostname h \<Rightarrow> Inr (''{"hostname":"'' @ h @ ''"}'')
      | Channel \<Rightarrow> Inl (Err ''json: unsupported type: chan int''))\<close>

section \<open>strconv reads back what fmt prints\<close>

lemmas strconv_eval = Atoi_def ParseInt_def ParseUint_def isDigit_def digitVal_def cutoff64_def IntSize_def

lemma digit_char:
  assumes "k < 10"
  shows "isDigit (char_of (48 + k))" and "digitVal (char_of (48 + k)) = k"
    and "char_of (48 + k) \<noteq> CHR ''-''" and "char_of (48 + k) \<noteq> CHR ''+''"
proof -
  have v: "(of_char (char_of (48 + k)) :: nat) = 48 + k"
    using assms by simp
  show "isDigit (char_of (48 + k))"
    using assms by (simp add: isDigit_def less_eq_char_def v)
  show "digitVal (char_of (48 + k)) = k"
    using assms by (simp add: digitVal_def)
  show "char_of (48 + k) \<noteq> CHR ''-''"
  proof
    assume "char_of (48 + k) = CHR ''-''"
    then have "(of_char (char_of (48 + k)) :: nat) = of_char CHR ''-''" by (rule arg_cong)
    with v show False by simp
  qed
  show "char_of (48 + k) \<noteq> CHR ''+''"
  proof
    assume "char_of (48 + k) = CHR ''+''"
    then have "(of_char (char_of (48 + k)) :: nat) = of_char CHR ''+''" by (rule arg_cong)
    with v show False by simp
  qed
qed

lemma digits_nonempty: "digits n \<noteq> []"
  by (subst digits.simps) simp

lemma hd_digits: "hd (digits n) \<noteq> CHR ''-'' \<and> hd (digits n) \<noteq> CHR ''+''"
proof (induction n rule: digits.induct)
  case (1 n)
  show ?case
  proof (cases "n < 10")
    case True
    then show ?thesis
      by (subst digits.simps, subst (2) digits.simps) (simp add: digit_char)
  next
    case False
    with 1 show ?thesis
      by (subst digits.simps, subst (2) digits.simps) (simp add: digits_nonempty)
  qed
qed

lemma ParseUint_loop_step:
  assumes "k < 10" "M < 2 ^ 64" "v * 10 + k \<le> M"
  shows "ParseUint_loop M v (char_of (48 + k) # rest) = ParseUint_loop M (v * 10 + k) rest"
proof -
  have "v * 10 < 2 ^ 64" using assms by linarith
  then have c: "v < cutoff64" by (simp add: cutoff64_def)
  have m1: "(v * 10) mod 2 ^ 64 = v * 10" using assms by simp
  have m2: "(v * 10 + k) mod 2 ^ 64 = v * 10 + k" using assms by simp
  show ?thesis
    using assms c by (simp add: digit_char m1 m2 Let_def)
qed

lemma ParseUint_loop_digits:
  "M < 2 ^ 64 \<Longrightarrow> acc * 10 ^ length (digits n) + n \<le> M \<Longrightarrow>
   ParseUint_loop M acc (digits n @ rest) = ParseUint_loop M (acc * 10 ^ length (digits n) + n) rest"
proof (induction n arbitrary: rest rule: digits.induct)
  case (1 n)
  show ?case
  proof (cases "n < 10")
    case True
    then have d: "digits n = [char_of (48 + n)]" by (subst digits.simps) simp
    have "ParseUint_loop M acc (char_of (48 + n) # rest) = ParseUint_loop M (acc * 10 + n) rest"
      by (rule ParseUint_loop_step) (use 1(2,3) True in \<open>simp_all add: d\<close>)
    then show ?thesis
      by (simp add: d)
  next
    case False
    then have d: "digits n = digits (n div 10) @ [char_of (48 + n mod 10)]"
      by (subst digits.simps) simp
    let ?k = "length (digits (n div 10))"
    have len: "length (digits n) = Suc ?k" by (simp add: d)
    have bound: "acc * 10 ^ ?k * 10 + n \<le> M" using 1(3) by (simp add: len mult.assoc mult.commute)
    have n_eq: "n = n div 10 * 10 + n mod 10" by simp
    have b1: "(acc * 10 ^ ?k + n div 10) * 10 + n mod 10 \<le> M"
      using bound n_eq by (simp add: algebra_simps)
    have "\<And>x y :: nat. x * 10 + y \<le> M \<Longrightarrow> x \<le> M" by linarith
    from this[OF b1] have b2: "acc * 10 ^ ?k + n div 10 \<le> M" .
    have "ParseUint_loop M acc (digits n @ rest) =
          ParseUint_loop M acc (digits (n div 10) @ (char_of (48 + n mod 10) # rest))"
      by (simp add: d)
    also have "\<dots> = ParseUint_loop M (acc * 10 ^ ?k + n div 10) (char_of (48 + n mod 10) # rest)"
      using 1(1)[OF False 1(2) b2] .
    also have "\<dots> = ParseUint_loop M ((acc * 10 ^ ?k + n div 10) * 10 + n mod 10) rest"
      by (rule ParseUint_loop_step) (use 1(2) b1 in simp_all)
    also have "(acc * 10 ^ ?k + n div 10) * 10 + n mod 10 = acc * 10 ^ length (digits n) + n"
      using n_eq by (simp add: len algebra_simps)
    finally show ?thesis .
  qed
qed

lemma ParseUint_digits: "n < 2 ^ 64 \<Longrightarrow> b = 0 \<or> b = 64 \<Longrightarrow> ParseUint (digits n) b = (n, None)"
proof -
  assume n: "n < 2 ^ 64" and b: "b = 0 \<or> b = 64"
  have "ParseUint_loop (2 ^ 64 - 1) 0 (digits n @ []) =
        ParseUint_loop (2 ^ 64 - 1) (0 * 10 ^ length (digits n) + n) []"
    by (rule ParseUint_loop_digits) (use n in simp_all)
  then have "ParseUint_loop (2 ^ 64 - 1) 0 (digits n) = (n, None)"
    by simp
  with b show ?thesis
    by (auto simp: ParseUint_def digits_nonempty IntSize_def)
qed

text \<open>
  Every integer of the 64-bit range, printed in decimal, is read back by \<open>ParseInt\<close> and
  \<open>Atoi\<close> as itself and without an error.
\<close>

lemma ParseInt_FormatInt:
  assumes "- (2 ^ 63) \<le> i" "i < 2 ^ 63" "b = 0 \<or> b = 64"
  shows "ParseInt (FormatInt i) b = (i, None)"
proof (cases "i < 0")
  case True
  then have n: "nat (- i) \<le> 2 ^ 63" using assms by simp
  then have "nat (- i) < 2 ^ 64" by simp
  then have p: "ParseUint (digits (nat (- i))) b = (nat (- i), None)"
    using assms(3) by (rule ParseUint_digits)
  show ?thesis
    using True n assms(3) by (auto simp: ParseInt_def FormatInt_def p IntSize_def Let_def)
next
  case False
  then have n: "nat i < 2 ^ 63" using assms by simp
  then have "nat i < 2 ^ 64" by simp
  then have p: "ParseUint (digits (nat i)) b = (nat i, None)"
    using assms(3) by (rule ParseUint_digits)
  show ?thesis
    using False n assms(3) hd_digits[of "nat i"]
    by (auto simp: ParseInt_def FormatInt_def p IntSize_def Let_def digits_nonempty)
qed

lemma Atoi_FormatInt: "- (2 ^ 63) \<le> i \<Longrightarrow> i < 2 ^ 63 \<Longrightarrow> Atoi (FormatInt i) = (i, None)"
  by (simp add: Atoi_def ParseInt_FormatInt)

lemma ParseInt_syntax_value: "snd (ParseInt s b) = Some ErrSyntax \<Longrightarrow> fst (ParseInt s b) = 0"
  by (auto simp: ParseInt_def Let_def split: if_splits)

lemma ParseInt_range_value:
  "snd (ParseInt s b) = Some ErrRange \<Longrightarrow> b = 0 \<or> b = 64 \<Longrightarrow>
   fst (ParseInt s b) = 2 ^ 63 - 1 \<or> fst (ParseInt s b) = - (2 ^ 63)"
  by (auto simp: ParseInt_def Let_def IntSize_def split: if_splits)

lemma ParseInt_error_nonempty: "snd (ParseInt s b) = Some ErrRange \<Longrightarrow> s \<noteq> []"
  by (auto simp: ParseInt_def)

section \<open>The rate-limit snapshot\<close>

text \<open>
  \<open>populateRate\<close> changes nothing but the snapshot, and each field of the snapshot
  depends on its own header only.
\<close>

lemma http_Response_populateRate: "http_Response (populateRate r) = http_Response r"
  by (simp add: populateRate_def Let_def)

lemma Rate_populateRate:
  "Rate (populateRate r) =
     \<lparr>RequestLimit = (if rate_header r headerRateLimit \<noteq> [] then fst (Atoi (rate_header r headerRateLimit))
                      else RequestLimit (Rate r)),
      RequestsRemaining = (if rate_header r headerRateRemaining \<noteq> []
                      then fst (Atoi (rate_header r headerRateRemaining)) else RequestsRemaining (Rate r)),
      Reset = (if rate_header r headerRateReset \<noteq> [] \<and> fst (ParseInt (rate_header r headerRateReset) 64) \<noteq> 0
               then Timestamp (Unix (fst (ParseInt (rate_header r headerRateReset) 64)) 0)
               else Reset (Rate r))\<rparr>"
  by (simp add: populateRate_def rate_header_def Let_def)

text \<open>
  C2, as amended. For every response wrapper \<open>r\<close>: when a rate-limit header carries a
  valid integer (\<open>strconv\<close> reads it without an error), \<open>populateRate\<close> sets the field
  to that integer, the reset field to the time \<open>time.Unix\<close> makes of it; a reset header
  read as zero leaves the reset field as it was; an absent header (\<open>Get\<close> returns the
  empty string) leaves its field as it was; a header in which \<open>strconv\<close> finds a syntax
  error leaves the limit and the remaining count at 0 and the reset field as it was; a
  header in which \<open>strconv\<close> finds a range error sets the field to the largest or the
  smallest 64-bit integer. \<open>populateRate\<close> has no error result, so no parsing failure is
  reported. In \<open>Do\<close> the wrapper is new and its snapshot is the zero value, so that "as
  it was" is the zero default there.
\<close>

theorem populateRate_fields:
  "(Atoi (rate_header r headerRateLimit) = (a, None) \<longrightarrow> RequestLimit (Rate (populateRate r)) = a) \<and>
   (Atoi (rate_header r headerRateRemaining) = (b, None) \<longrightarrow> RequestsRemaining (Rate (populateRate r)) = b) \<and>
   (ParseInt (rate_header r headerRateReset) 64 = (c, None) \<and> c \<noteq> 0 \<longrightarrow>
      Reset (Rate (populateRate r)) = Timestamp (Unix c 0)) \<and>
   (fst (ParseInt (rate_header r headerRateReset) 64) = 0 \<longrightarrow> Reset (Rate (populateRate r)) = Reset (Rate r)) \<and>
   (rate_header r headerRateLimit = [] \<longrightarrow> RequestLimit (Rate (populateRate r)) = RequestLimit (Rate r)) \<and>
   (rate_header r headerRateRemaining = [] \<longrightarrow>
      RequestsRemaining (Rate (populateRate r)) = RequestsRemaining (Rate r)) \<and>
   (rate_header r headerRateReset = [] \<longrightarrow> Reset (Rate (populateRate r)) = Reset (Rate r)) \<and>
   (rate_header r headerRateLimit \<noteq> [] \<and> snd (Atoi (rate_header r headerRateLimit)) = Some ErrSyntax \<longrightarrow>
      RequestLimit (Rate (populateRate r)) = 0) \<and>
   (rate_header r headerRateRemaining \<noteq> [] \<and> snd (Atoi (rate_header r headerRateRemaining)) = Some ErrSyntax \<longrightarrow>
      RequestsRemaining (Rate (populateRate r)) = 0) \<and>
   (snd (ParseInt (rate_header r headerRateReset) 64) = Some ErrSyntax \<longrightarrow>
      Reset (Rate (populateRate r)) = Reset (Rate r)) \<and>
   (snd (Atoi (rate_header r headerRateLimit)) = Some ErrRange \<longrightarrow>
      RequestLimit (Rate (populateRate r)) = 2 ^ 63 - 1 \<or> RequestLimit (Rate (populateRate r)) = - (2 ^ 63)) \<and>
   (snd (Atoi (rate_header r headerRateRemaining)) = Some ErrRange \<longrightarrow>
      RequestsRemaining (Rate (populateRate r)) = 2 ^ 63 - 1 \<or>
      RequestsRemaining (Rate (populateRate r)) = - (2 ^ 63)) \<and>
   (snd (ParseInt (rate_header r headerRateReset) 64) = Some ErrRange \<longrightarrow>
      Reset (Rate (populateRate r)) = Timestamp (Unix (2 ^ 63 - 1) 0) \<or>
      Reset (Rate (populateRate r)) = Timestamp (Unix (- (2 ^ 63)) 0))"
proof -
  have ne: "\<And>s v. Atoi s = (v, None) \<Longrightarrow> s \<noteq> []"
    by (auto simp: Atoi_def ParseInt_def)
  have ne': "\<And>s v. ParseInt s 64 = (v, None) \<Longrightarrow> s \<noteq> []"
    by (auto simp: ParseInt_def)
  have z: "\<And>s. snd (Atoi s) = Some ErrSyntax \<Longrightarrow> fst (Atoi s) = 0"
    unfolding Atoi_def by (rule ParseInt_syntax_value)
  have first: "(Atoi (rate_header r headerRateLimit) = (a, None) \<longrightarrow> RequestLimit (Rate (populateRate r)) = a) \<and>
   (Atoi (rate_header r headerRateRemaining) = (b, None) \<longrightarrow> RequestsRemaining (Rate (populateRate r)) = b) \<and>
   (ParseInt (rate_header r headerRateReset) 64 = (c, None) \<and> c \<noteq> 0 \<longrightarrow>
      Reset (Rate (populateRate r)) = Timestamp (Unix c 0)) \<and>
   (fst (ParseInt (rate_header r headerRateReset) 64) = 0 \<longrightarrow> Reset (Rate (populateRate r)) = Reset (Rate r)) \<and>
   (rate_header r headerRateLimit = [] \<longrightarrow> RequestLimit (Rate (populateRate r)) = RequestLimit (Rate r)) \<and>
   (rate_header r headerRateRemaining = [] \<longrightarrow>
      RequestsRemaining (Rate (populateRate r)) = RequestsRemaining (Rate r)) \<and>
   (rate_header r headerRateReset = [] \<longrightarrow> Reset (Rate (populateRate r)) = Reset (Rate r)) \<and>
   (rate_header r headerRateLimit \<noteq> [] \<and> snd (Atoi (rate_header r headerRateLimit)) = Some ErrSyntax \<longrightarrow>
      RequestLimit (Rate (populateRate r)) = 0) \<and>
   (rate_header r headerRateRemaining \<noteq> [] \<and> snd (Atoi (rate_header r headerRateRemaining)) = Some ErrSyntax \<longrightarrow>
      RequestsRemaining (Rate (populateRate r)) = 0) \<and>
   (snd (ParseInt (rate_header r headerRateReset) 64) = Some ErrSyntax \<longrightarrow>
      Reset (Rate (populateRate r)) = Reset (Rate r))"
    by (auto simp: Rate_populateRate dest: ne ne' z ParseInt_syntax_value)
  have rl: "snd (Atoi (rate_header r headerRateLimit)) = Some ErrRange \<longrightarrow>
      RequestLimit (Rate (populateRate r)) = 2 ^ 63 - 1 \<or> RequestLimit (Rate (populateRate r)) = - (2 ^ 63)"
    using ParseInt_range_value[of "rate_header r headerRateLimit" 0]
      ParseInt_error_nonempty[of "rate_header r headerRateLimit" 0]
    by (simp add: Rate_populateRate Atoi_def)
  have rr: "snd (Atoi (rate_header r headerRateRemaining)) = Some ErrRange \<longrightarrow>
      RequestsRemaining (Rate (populateRate r)) = 2 ^ 63 - 1 \<or>
      RequestsRemaining (Rate (populateRate r)) = - (2 ^ 63)"
    using ParseInt_range_value[of "rate_header r headerRateRemaining" 0]
      ParseInt_error_nonempty[of "rate_header r headerRateRemaining" 0]
    by (simp add: Rate_populateRate Atoi_def)
  have rs: "snd (ParseInt (rate_header r headerRateReset) 64) = Some ErrRange \<longrightarrow>
      Reset (Rate (populateRate r)) = Timestamp (Unix (2 ^ 63 - 1) 0) \<or>
      Reset (Rate (populateRate r)) = Timestamp (Unix (- (2 ^ 63)) 0)"
    using ParseInt_range_value[of "rate_header r headerRateReset" 64]
      ParseInt_error_nonempty[of "rate_header r headerRateReset" 64]
    by (auto simp: Rate_populateRate)
  from first rl rr rs show ?thesis by blast
qed

theorem populateRate_fields_witness:
  "Rate (populateRate (wrap (response_with 200
       [(''X-RateLimit-Limit'', ''100''), (''X-RateLimit-Remaining'', ''99''),
        (''X-RateLimit-Reset'', ''1420070400'')] :: unit Http_Response)))
     = \<lparr>RequestLimit = 100, RequestsRemaining = 99, Reset = Timestamp (Unix 1420070400 0)\<rparr> \<and>
   Reset (Rate (populateRate (wrap (response_with 200 [(''X-RateLimit-Reset'', ''0'')] :: unit Http_Response))))
     = Timestamp ZeroTime \<and>
   RequestsRemaining (Rate (populateRate (wrap (response_with 200 [(''X-RateLimit-Limit'', ''100'')] :: unit Http_Response))))
     = 0 \<and>
   RequestLimit (Rate (populateRate (wrap (response_with 200 [(''X-RateLimit-Limit'', ''abc'')] :: unit Http_Response))))
     = 0 \<and>
   (RequestLimit (Rate (populateRate (wrap (response_with 200
        [(''X-RateLimit-Limit'', ''-99999999999999999999'')] :: unit Http_Response)))) = 2 ^ 63 - 1 \<or>
    RequestLimit (Rate (populateRate (wrap (response_with 200
        [(''X-RateLimit-Limit'', ''-99999999999999999999'')] :: unit Http_Response)))) = - (2 ^ 63))"
proof -
  let ?full = "wrap (response_with 200 [(''X-RateLimit-Limit'', ''100''), (''X-RateLimit-Remaining'', ''99''),
        (''X-RateLimit-Reset'', ''1420070400'')] :: unit Http_Response)"
  let ?zero = "wrap (response_with 200 [(''X-RateLimit-Reset'', ''0'')] :: unit Http_Response)"
  let ?only = "wrap (response_with 200 [(''X-RateLimit-Limit'', ''100'')] :: unit Http_Response)"
  let ?bad = "wrap (response_with 200 [(''X-RateLimit-Limit'', ''abc'')] :: unit Http_Response)"
  have h1: "rate_header ?full headerRateLimit = ''100''" by code_simp
  have h2: "rate_header ?full headerRateRemaining = ''99''" by code_simp
  have h3: "rate_header ?full headerRateReset = ''1420070400''" by code_simp
  have h4: "rate_header ?zero headerRateReset = ''0''" by code_simp
  have h5: "rate_header ?only headerRateRemaining = []" by code_simp
  have h6: "rate_header ?bad headerRateLimit = ''abc''" by code_simp
  have a1: "Atoi ''100'' = (100, None)" by (simp add: strconv_eval)
  have a2: "Atoi ''99'' = (99, None)" by (simp add: strconv_eval)
  have a3: "ParseInt ''1420070400'' 64 = (1420070400, None)" by (simp add: strconv_eval)
  have a4: "ParseInt ''0'' 64 = (0, None)" by (simp add: strconv_eval)
  have a6: "Atoi ''abc'' = (0, Some ErrSyntax)" by (simp add: strconv_eval)
  have z: "Rate ?zero = zero_Rate" "Rate ?only = zero_Rate" by (simp_all add: wrap_def)
  from populateRate_fields[of ?full 100 99 1420070400]
  have "RequestLimit (Rate (populateRate ?full)) = 100"
    and "RequestsRemaining (Rate (populateRate ?full)) = 99"
    and "Reset (Rate (populateRate ?full)) = Timestamp (Unix 1420070400 0)"
    by (simp_all add: h1 h2 h3 a1 a2 a3)
  then have c1: "Rate (populateRate ?full)
      = \<lparr>RequestLimit = 100, RequestsRemaining = 99, Reset = Timestamp (Unix 1420070400 0)\<rparr>"
    by (cases "Rate (populateRate ?full)") simp
  from populateRate_fields[of ?zero]
  have c2: "Reset (Rate (populateRate ?zero)) = Timestamp ZeroTime"
    by (simp add: h4 a4 z zero_Rate_def)
  from populateRate_fields[of ?only]
  have c3: "RequestsRemaining (Rate (populateRate ?only)) = 0"
    by (simp add: h5 z zero_Rate_def)
  from populateRate_fields[of ?bad]
  have c4: "RequestLimit (Rate (populateRate ?bad)) = 0"
    by (simp add: h6 a6)
  let ?big = "wrap (response_with 200 [(''X-RateLimit-Limit'', ''-99999999999999999999'')] :: unit Http_Response)"
  have h7: "rate_header ?big headerRateLimit = ''-99999999999999999999''" by code_simp
  have a7: "Atoi ''-99999999999999999999'' = (- 9223372036854775808, Some ErrRange)" by (simp add: strconv_eval)
  from populateRate_fields[of ?big]
  have c5: "RequestLimit (Rate (populateRate ?big)) = 2 ^ 63 - 1 \<or>
      RequestLimit (Rate (populateRate ?big)) = - (2 ^ 63)"
    by (simp add: h7 a7)
  from c1 c2 c3 c4 c5 show ?thesis by blast
qed

text \<open>
  C2 as stated fails: a header value that is no number can still set the field. A run
  of digits too long for 64 bits gives a range error and the largest integer, and
  \<open>ParseUint\<close> reports it at the digit where the value overflows, without looking at the
  bytes after it.
\<close>

theorem populateRate_range_error_sets_field:
  "snd (Atoi ''99999999999999999999'') = Some ErrRange \<and>
   RequestLimit (Rate (populateRate (wrap (response_with 200
      [(''X-RateLimit-Limit'', ''99999999999999999999'')] :: unit Http_Response)))) = 9223372036854775807 \<and>
   snd (Atoi ''99999999999999999999x'') = Some ErrRange \<and>
   RequestLimit (Rate (populateRate (wrap (response_with 200
      [(''X-RateLimit-Limit'', ''99999999999999999999x'')] :: unit Http_Response)))) = 9223372036854775807"
proof -
  let ?r1 = "wrap (response_with 200 [(''X-RateLimit-Limit'', ''99999999999999999999'')] :: unit Http_Response)"
  let ?r2 = "wrap (response_with 200 [(''X-RateLimit-Limit'', ''99999999999999999999x'')] :: unit Http_Response)"
  have h1: "rate_header ?r1 headerRateLimit = ''99999999999999999999''" by code_simp
  have h2: "rate_header ?r2 headerRateLimit = ''99999999999999999999x''" by code_simp
  have a1: "Atoi ''99999999999999999999'' = (9223372036854775807, Some ErrRange)"
    by (simp add: strconv_eval)
  have a2: "Atoi ''99999999999999999999x'' = (9223372036854775807, Some ErrRange)"
    by (simp add: strconv_eval)
  show ?thesis
    by (simp add: Rate_populateRate h1 h2 a1 a2)
qed

section \<open>What Do returns\<close>

lemma CheckResponse_2xx:
  "200 \<le> StatusCode r \<Longrightarrow> StatusCode r \<le> 299 \<Longrightarrow> CheckResponse J r body = (r, body, None)"
  by (simp add: CheckResponse_def)

lemma CheckResponse_not_2xx:
  "\<not> (200 \<le> StatusCode r \<and> StatusCode r \<le> 299) \<Longrightarrow> \<exists>r' body' e. CheckResponse J r body = (r', body', Some e)"
  by (auto simp: CheckResponse_def Let_def split: prod.splits)

lemma populateRate_same:
  "(populateRate \<lparr>http_Response = resp, Rate = z\<rparr>)\<lparr>http_Response := resp\<rparr>
     = populateRate \<lparr>http_Response = resp, Rate = z\<rparr>"
  using http_Response_populateRate[of "\<lparr>http_Response = resp, Rate = z\<rparr>"]
  by (cases "populateRate \<lparr>http_Response = resp, Rate = z\<rparr>") simp

lemma Do_transport_error:
  "client c req = Inl err \<Longrightarrow>
   Do J c req v = \<lparr>ret_Response = None, ret_error = Some (LibError err), post_Client = c, post_v = v, post_Body = None\<rparr>"
  by (simp add: Do_def)

lemma Do_post_Client:
  assumes "client c req = Inr (resp, body)"
  shows "post_Client (Do J c req v) = c\<lparr>RateLimit := Rate (populateRate (wrap resp))\<rparr>"
proof -
  obtain resp1 body1 e where cr: "CheckResponse J resp body = (resp1, body1, e)"
    by (cases "CheckResponse J resp body") auto
  show ?thesis
  proof (cases e)
    case (Some a)
    then show ?thesis by (simp add: Do_def assms cr wrap_def Let_def)
  next
    case None
    show ?thesis
    proof (cases v)
      case NoDest
      then show ?thesis by (simp add: Do_def assms cr None wrap_def Let_def)
    next
      case (Dest x wo dec)
      show ?thesis
      proof (cases wo)
        case (Some wr)
        then show ?thesis
          by (cases "io_Copy wr x body1") (simp add: Do_def assms cr None Dest wrap_def Let_def)
      next
        case wn: None
        obtain b2 x' de where d: "dec body1 x = (b2, x', de)" by (cases "dec body1 x") auto
        show ?thesis
          by (cases de) (simp_all add: Do_def assms cr None Dest wn d wrap_def Let_def)
      qed
    qed
  qed
qed

lemma Do_ret_Rate:
  assumes "client c req = Inr (resp, body)"
  shows "map_option Rate (ret_Response (Do J c req v)) = Some (Rate (populateRate (wrap resp)))"
proof -
  obtain resp1 body1 e where cr: "CheckResponse J resp body = (resp1, body1, e)"
    by (cases "CheckResponse J resp body") auto
  show ?thesis
  proof (cases e)
    case (Some a)
    then show ?thesis by (simp add: Do_def assms cr wrap_def Let_def)
  next
    case None
    show ?thesis
    proof (cases v)
      case NoDest
      then show ?thesis by (simp add: Do_def assms cr None wrap_def Let_def)
    next
      case (Dest x wo dec)
      show ?thesis
      proof (cases wo)
        case (Some wr)
        then show ?thesis
          by (cases "io_Copy wr x body1") (simp add: Do_def assms cr None Dest wrap_def Let_def)
      next
        case wn: None
        obtain b2 x' de where d: "dec body1 x = (b2, x', de)" by (cases "dec body1 x") auto
        show ?thesis
          by (cases de) (simp_all add: Do_def assms cr None Dest wn d wrap_def Let_def)
      qed
    qed
  qed
qed

lemma Do_2xx_NoDest:
  "client c req = Inr (resp, body) \<Longrightarrow> 200 \<le> StatusCode resp \<Longrightarrow> StatusCode resp \<le> 299 \<Longrightarrow>
   Do J c req NoDest =
     \<lparr>ret_Response = Some (populateRate (wrap resp)), ret_error = None,
      post_Client = c\<lparr>RateLimit := Rate (populateRate (wrap resp))\<rparr>, post_v = NoDest,
      post_Body = Some (Body_Close body)\<rparr>"
  by (simp add: Do_def wrap_def Let_def CheckResponse_2xx populateRate_same)

lemma Do_2xx_Writer:
  "client c req = Inr (resp, body) \<Longrightarrow> 200 \<le> StatusCode resp \<Longrightarrow> StatusCode resp \<le> 299 \<Longrightarrow>
   Do J c req (Dest x (Some wr) dec) =
     \<lparr>ret_Response = Some (populateRate (wrap resp)), ret_error = None,
      post_Client = c\<lparr>RateLimit := Rate (populateRate (wrap resp))\<rparr>,
      post_v = Dest (fst (io_Copy wr x body)) (Some wr) dec,
      post_Body = Some (Body_Close (fst (snd (io_Copy wr x body))))\<rparr>"
  by (cases "io_Copy wr x body") (simp add: Do_def wrap_def Let_def CheckResponse_2xx populateRate_same)

lemma Do_2xx_Decode:
  "client c req = Inr (resp, body) \<Longrightarrow> 200 \<le> StatusCode resp \<Longrightarrow> StatusCode resp \<le> 299 \<Longrightarrow>
   Do J c req (Dest x None dec) =
     \<lparr>ret_Response = Some (populateRate (wrap resp)), ret_error = map_option LibError (snd (snd (dec body x))),
      post_Client = c\<lparr>RateLimit := Rate (populateRate (wrap resp))\<rparr>,
      post_v = Dest (fst (snd (dec body x))) None dec,
      post_Body = Some (Body_Close (fst (dec body x)))\<rparr>"
proof -
  assume a: "client c req = Inr (resp, body)" "200 \<le> StatusCode resp" "StatusCode resp \<le> 299"
  obtain b2 x' de where d: "dec body x = (b2, x', de)" by (cases "dec body x") auto
  show ?thesis
    by (cases de) (simp_all add: Do_def a d wrap_def Let_def CheckResponse_2xx populateRate_same)
qed

lemma Do_not_2xx:
  assumes "client c req = Inr (resp, body)" "\<not> (200 \<le> StatusCode resp \<and> StatusCode resp \<le> 299)"
  shows "\<exists>resp1 body1 e. CheckResponse J resp body = (resp1, body1, Some e) \<and>
           ret_error (Do J c req v) = Some (ApiError e) \<and> post_v (Do J c req v) = v \<and>
           post_Body (Do J c req v) = Some (Body_Close body1)"
proof -
  obtain resp1 body1 e where cr: "CheckResponse J resp body = (resp1, body1, Some e)"
    using CheckResponse_not_2xx[OF assms(2)] by blast
  then show ?thesis
    by (simp add: Do_def assms(1) Let_def)
qed

lemma Copy_loop_accepts:
  "accepts_all wr \<Longrightarrow>
   Copy_loop wr end w n ps =
     (foldl (\<lambda>w p. fst (wr w p)) w (filter (\<lambda>p. p \<noteq> []) ps), [], n + int (length (concat ps)), end)"
proof (induction ps arbitrary: w n)
  case Nil
  show ?case by simp
next
  case (Cons p ps)
  show ?case
  proof (cases "p = []")
    case True
    then show ?thesis using Cons by simp
  next
    case False
    obtain w' nw ew where r: "wr w p = (w', nw, ew)" by (cases "wr w p") auto
    from Cons.prems have "fst (snd (wr w p)) = int (length p)" "snd (snd (wr w p)) = None"
      by (simp_all add: accepts_all_def)
    with r have nw: "nw = int (length p)" and ew: "ew = None" by simp_all
    show ?thesis
      using False Cons.IH[OF Cons.prems, of w' "n + int (length p)"]
      by (simp add: r nw ew Let_def)
  qed
qed

lemma io_Copy_accepts:
  "accepts_all wr \<Longrightarrow> \<not> closed src \<Longrightarrow>
   io_Copy wr dst src =
     (foldl (\<lambda>w p. fst (wr w p)) dst (filter (\<lambda>p. p \<noteq> []) (pending src)), src\<lparr>pending := []\<rparr>,
      int (length (concat (pending src))), fault src)"
  by (simp add: io_Copy_def Copy_loop_accepts)

lemma accepts_all_buffer: "accepts_all buffer_Write"
  by (simp add: accepts_all_def buffer_Write_def)

lemma foldl_buffer_Write: "foldl (\<lambda>w p. fst (buffer_Write w p)) b ps = b @ concat ps"
  by (induction ps arbitrary: b) (simp_all add: buffer_Write_def)

text \<open>
  C3. Whenever the transport returns a response, whatever its status code, the
  snapshot that \<open>populateRate\<close> extracts from the headers of the response as the
  transport delivered it is what \<open>Do\<close> stores in the client's \<open>RateLimit\<close> (the other
  fields of the client stay as they were) and what the returned wrapper carries; this
  is so also when the status is outside 200..299 and \<open>Do\<close> returns an \<open>ErrorResponse\<close>.
\<close>

theorem Do_rate_before_status:
  "client c req = Inr (resp, body) \<Longrightarrow>
     post_Client (Do J c req v) = c\<lparr>RateLimit := Rate (populateRate (wrap resp))\<rparr> \<and>
     map_option Rate (ret_Response (Do J c req v)) = Some (Rate (populateRate (wrap resp))) \<and>
     (\<not> (200 \<le> StatusCode resp \<and> StatusCode resp \<le> 299) \<longrightarrow>
        (\<exists>e. ret_error (Do J c req v) = Some (ApiError e)))"
  using Do_post_Client[of c req resp body J v] Do_ret_Rate[of c req resp body J v]
    Do_not_2xx[of c req resp body J v]
  by blast

theorem Do_rate_before_status_witness:
  \<open>RateLimit (post_Client (Do demo_json
       (NewClient (answers (response_with 422 [(''X-RateLimit-Limit'', ''100''), (''X-RateLimit-Remaining'', ''0'')])
          [''{"message":"invalid hostname"}'']) baseURL ''consumer'' ''key'')
       get_req (NoDest :: unit dest)))
     = \<lparr>RequestLimit = 100, RequestsRemaining = 0, Reset = Timestamp ZeroTime\<rparr> \<and>
   (\<exists>e. ret_error (Do demo_json
       (NewClient (answers (response_with 422 [(''X-RateLimit-Limit'', ''100''), (''X-RateLimit-Remaining'', ''0'')])
          [''{"message":"invalid hostname"}'']) baseURL ''consumer'' ''key'')
       get_req (NoDest :: unit dest)) = Some (ApiError e))\<close>
proof -
  let ?resp = "(response_with 422 [(''X-RateLimit-Limit'', ''100''), (''X-RateLimit-Remaining'', ''0'')])
      \<lparr>Request := Some get_req\<rparr>"
  let ?body = \<open>body_of [''{"message":"invalid hostname"}'']\<close>
  let ?c = \<open>NewClient (answers (response_with 422 [(''X-RateLimit-Limit'', ''100''), (''X-RateLimit-Remaining'', ''0'')])
          [''{"message":"invalid hostname"}'']) baseURL ''consumer'' ''key''\<close>
  have cl: "client ?c get_req = Inr (?resp, ?body)"
    by (simp add: NewClient_def answers_def)
  have st: "\<not> (200 \<le> StatusCode ?resp \<and> StatusCode ?resp \<le> 299)"
    by (simp add: response_with_def)
  have h1: "rate_header (wrap ?resp) headerRateLimit = ''100''" by code_simp
  have h2: "rate_header (wrap ?resp) headerRateRemaining = ''0''" by code_simp
  have h3: "rate_header (wrap ?resp) headerRateReset = []" by code_simp
  have a1: "Atoi ''100'' = (100, None)" by (simp add: strconv_eval)
  have a2: "Atoi ''0'' = (0, None)" by (simp add: strconv_eval)
  have rate: "Rate (populateRate (wrap ?resp))
      = \<lparr>RequestLimit = 100, RequestsRemaining = 0, Reset = Timestamp ZeroTime\<rparr>"
    by (simp add: Rate_populateRate h1 h2 h3 a1 a2) (simp add: wrap_def zero_Rate_def)
  from Do_rate_before_status[OF cl, of demo_json "NoDest :: unit dest"] st rate
  show ?thesis by (simp add: NewClient_def)
qed

text \<open>
  C4. When the transport fails, \<open>Do\<close> returns no response wrapper and the transport's
  error, and leaves the client, its \<open>RateLimit\<close> included, and the destination as they
  were.
\<close>

theorem Do_transport_failure:
  "client c req = Inl err \<Longrightarrow>
     ret_Response (Do J c req v) = None \<and> ret_error (Do J c req v) = Some (LibError err) \<and>
     post_Client (Do J c req v) = c \<and> RateLimit (post_Client (Do J c req v)) = RateLimit c \<and>
     post_v (Do J c req v) = v \<and> post_Body (Do J c req v) = None"
  by (simp add: Do_transport_error)

theorem Do_transport_failure_witness:
  "ret_Response (Do demo_json ((NewClient (refuses ''dial tcp: connection refused'') baseURL ''consumer'' ''key'')
        \<lparr>RateLimit := stale_Rate\<rparr>) get_req (NoDest :: unit dest)) = None \<and>
   ret_error (Do demo_json ((NewClient (refuses ''dial tcp: connection refused'') baseURL ''consumer'' ''key'')
        \<lparr>RateLimit := stale_Rate\<rparr>) get_req (NoDest :: unit dest))
     = Some (LibError (Err ''dial tcp: connection refused'')) \<and>
   RateLimit (post_Client (Do demo_json ((NewClient (refuses ''dial tcp: connection refused'') baseURL ''consumer'' ''key'')
        \<lparr>RateLimit := stale_Rate\<rparr>) get_req (NoDest :: unit dest))) = stale_Rate"
proof -
  let ?c = "(NewClient (refuses ''dial tcp: connection refused'') baseURL ''consumer'' ''key'')\<lparr>RateLimit := stale_Rate\<rparr>"
  have cl: "client ?c get_req = Inl (Err ''dial tcp: connection refused'')"
    by (simp add: NewClient_def refuses_def)
  from Do_transport_failure[OF cl, of demo_json "NoDest :: unit dest"]
  show ?thesis by (simp add: NewClient_def)
qed



text \<open>
  C9. For a 2xx response and a destination that implements \<open>io.Writer\<close>: when \<open>io.Copy\<close>
  stops with an error, \<open>Do\<close> still returns a \<open>nil\<close> error; the destination is left as
  the failed copy left it.
\<close>

theorem Do_copy_error_discarded:
  "client c req = Inr (resp, body) \<Longrightarrow> 200 \<le> StatusCode resp \<Longrightarrow> StatusCode resp \<le> 299 \<Longrightarrow>
   io_Copy wr x body = (x', body', written, Some err) \<Longrightarrow>
     ret_error (Do J c req (Dest x (Some wr) dec)) = None \<and>
     post_v (Do J c req (Dest x (Some wr) dec)) = Dest x' (Some wr) dec \<and>
     post_Body (Do J c req (Dest x (Some wr) dec)) = Some (Body_Close body')"
  by (simp add: Do_2xx_Writer)

theorem Do_copy_error_discarded_witness:
  "io_Copy (full_after 4) [] (body_of [''abc'', ''def''])
     = (''abcd'', body_of [], 4, Some (Err ''no space left on device'')) \<and>
   ret_error (Do demo_json (NewClient (answers (response_with 200 []) [''abc'', ''def'']) baseURL ''consumer'' ''key'')
      get_req (Dest [] (Some (full_after 4)) json_fails)) = None \<and>
   val (post_v (Do demo_json (NewClient (answers (response_with 200 []) [''abc'', ''def'']) baseURL ''consumer'' ''key'')
      get_req (Dest [] (Some (full_after 4)) json_fails))) = ''abcd''"
proof -
  let ?resp = "(response_with 200 [])\<lparr>Request := Some get_req\<rparr>"
  let ?c = "NewClient (answers (response_with 200 []) [''abc'', ''def'']) baseURL ''consumer'' ''key''"
  have cl: "client ?c get_req = Inr (?resp, body_of [''abc'', ''def''])"
    by (simp add: NewClient_def answers_def)
  have st: "200 \<le> StatusCode ?resp" "StatusCode ?resp \<le> 299"
    by (simp_all add: response_with_def)
  have cp: "io_Copy (full_after 4) [] (body_of [''abc'', ''def''])
     = (''abcd'', body_of [], 4, Some (Err ''no space left on device''))"
    by (simp add: io_Copy_def body_of_def full_after_def Let_def)
  from Do_copy_error_discarded[OF cl st cp, of demo_json json_fails] cp
  show ?thesis by simp
qed

text \<open>
  C5. For a 2xx response and a destination that implements \<open>io.Writer\<close>, the outcome of
  \<open>Do\<close> is given by \<open>io.Copy\<close> alone: the error is \<open>nil\<close>, the destination is what
  \<open>io.Copy\<close> made of it, and neither the JSON package \<open>J\<close> nor the decoder \<open>dec\<close> of
  the destination is applied, whatever bytes the body holds. With a writer that takes
  all it is given, the writer has received exactly the chunks of the body, in order
  and unchanged, and the body has been read to its end.
\<close>

theorem Do_raw_sink:
  "client c req = Inr (resp, body) \<Longrightarrow> 200 \<le> StatusCode resp \<Longrightarrow> StatusCode resp \<le> 299 \<Longrightarrow>
     Do J c req (Dest x (Some wr) dec) =
       \<lparr>ret_Response = Some (populateRate (wrap resp)), ret_error = None,
        post_Client = c\<lparr>RateLimit := Rate (populateRate (wrap resp))\<rparr>,
        post_v = Dest (fst (io_Copy wr x body)) (Some wr) dec,
        post_Body = Some (Body_Close (fst (snd (io_Copy wr x body))))\<rparr> \<and>
     (accepts_all wr \<and> \<not> closed body \<longrightarrow>
        fst (io_Copy wr x body) = foldl (\<lambda>w p. fst (wr w p)) x (filter (\<lambda>p. p \<noteq> []) (pending body)) \<and>
        pending (fst (snd (io_Copy wr x body))) = [])"
  by (simp add: Do_2xx_Writer io_Copy_accepts)

theorem Do_raw_sink_witness:
  "ret_error (Do demo_json (NewClient (answers (response_with 200 []) [''not '', ''json'']) baseURL ''consumer'' ''key'')
      get_req (Dest ''>'' (Some buffer_Write) json_fails)) = None \<and>
   post_v (Do demo_json (NewClient (answers (response_with 200 []) [''not '', ''json'']) baseURL ''consumer'' ''key'')
      get_req (Dest ''>'' (Some buffer_Write) json_fails)) = Dest ''>not json'' (Some buffer_Write) json_fails \<and>
   post_Body (Do demo_json (NewClient (answers (response_with 200 []) [''not '', ''json'']) baseURL ''consumer'' ''key'')
      get_req (Dest ''>'' (Some buffer_Write) json_fails)) = Some \<lparr>pending = [], fault = None, closed = True\<rparr>"
proof -
  let ?resp = "(response_with 200 [])\<lparr>Request := Some get_req\<rparr>"
  let ?body = "body_of [''not '', ''json'']"
  let ?c = "NewClient (answers (response_with 200 []) [''not '', ''json'']) baseURL ''consumer'' ''key''"
  have cl: "client ?c get_req = Inr (?resp, ?body)"
    by (simp add: NewClient_def answers_def)
  have st: "200 \<le> StatusCode ?resp" "StatusCode ?resp \<le> 299"
    by (simp_all add: response_with_def)
  have op: "\<not> closed ?body" by (simp add: body_of_def)
  have cp: "io_Copy buffer_Write ''>'' ?body = (''>not json'', \<lparr>pending = [], fault = None, closed = False\<rparr>, 8, None)"
    by (simp add: io_Copy_def body_of_def buffer_Write_def Let_def)
  from Do_raw_sink[OF cl st, of demo_json "''>''" buffer_Write json_fails] accepts_all_buffer op
  have d: "Do demo_json ?c get_req (Dest ''>'' (Some buffer_Write) json_fails) =
       \<lparr>ret_Response = Some (populateRate (wrap ?resp)), ret_error = None,
        post_Client = ?c\<lparr>RateLimit := Rate (populateRate (wrap ?resp))\<rparr>,
        post_v = Dest (fst (io_Copy buffer_Write ''>'' ?body)) (Some buffer_Write) json_fails,
        post_Body = Some (Body_Close (fst (snd (io_Copy buffer_Write ''>'' ?body))))\<rparr>"
    by blast
  show ?thesis
    unfolding d by (simp add: cp Body_Close_def)
qed

text \<open>
  C8, as amended. For a 2xx response and a \<open>nil\<close> destination, \<open>Do\<close> reads nothing from
  the body: it returns the wrapper and a \<open>nil\<close> error, and the body is closed with all
  its bytes still unread.
\<close>

theorem Do_nil_destination:
  "client c req = Inr (resp, body) \<Longrightarrow> 200 \<le> StatusCode resp \<Longrightarrow> StatusCode resp \<le> 299 \<Longrightarrow>
     Do J c req NoDest =
       \<lparr>ret_Response = Some (populateRate (wrap resp)), ret_error = None,
        post_Client = c\<lparr>RateLimit := Rate (populateRate (wrap resp))\<rparr>, post_v = NoDest,
        post_Body = Some (Body_Close body)\<rparr> \<and>
     pending (Body_Close body) = pending body \<and> closed (Body_Close body)"
  by (simp add: Do_2xx_NoDest Body_Close_def)

theorem Do_nil_destination_witness:
  \<open>ret_error (Do demo_json (NewClient (answers (response_with 200 []) [''{"plans":[]}'']) baseURL ''consumer'' ''key'')
      get_req (NoDest :: unit dest)) = None \<and>
   post_Body (Do demo_json (NewClient (answers (response_with 200 []) [''{"plans":[]}'']) baseURL ''consumer'' ''key'')
      get_req (NoDest :: unit dest)) = Some \<lparr>pending = [''{"plans":[]}''], fault = None, closed = True\<rparr>\<close>
proof -
  let ?resp = "(response_with 200 [])\<lparr>Request := Some get_req\<rparr>"
  let ?body = \<open>body_of [''{"plans":[]}'']\<close>
  let ?c = \<open>NewClient (answers (response_with 200 []) [''{"plans":[]}'']) baseURL ''consumer'' ''key''\<close>
  have cl: "client ?c get_req = Inr (?resp, ?body)"
    by (simp add: NewClient_def answers_def)
  have st: "200 \<le> StatusCode ?resp" "StatusCode ?resp \<le> 299"
    by (simp_all add: response_with_def)
  from Do_nil_destination[OF cl st, of demo_json, where ?'b = unit]
  show ?thesis by (simp add: body_of_def Body_Close_def)
qed

text \<open>
  C8 as stated fails: after a 200 response with a \<open>nil\<close> destination the body has not
  been drained, its bytes are all still pending.
\<close>

theorem Do_nil_destination_not_drained:
  \<open>pending (the (post_Body (Do demo_json
      (NewClient (answers (response_with 200 []) [''{"plans":[]}'']) baseURL ''consumer'' ''key'')
      get_req (NoDest :: unit dest)))) = [''{"plans":[]}''] \<and>
   pending (the (post_Body (Do demo_json
      (NewClient (answers (response_with 200 []) [''{"plans":[]}'']) baseURL ''consumer'' ''key'')
      get_req (NoDest :: unit dest)))) \<noteq> []\<close>
proof -
  let ?resp = "(response_with 200 [])\<lparr>Request := Some get_req\<rparr>"
  let ?body = \<open>body_of [''{"plans":[]}'']\<close>
  let ?c = \<open>NewClient (answers (response_with 200 []) [''{"plans":[]}'']) baseURL ''consumer'' ''key''\<close>
  have cl: "client ?c get_req = Inr (?resp, ?body)"
    by (simp add: NewClient_def answers_def)
  have st: "200 \<le> StatusCode ?resp" "StatusCode ?resp \<le> 299"
    by (simp_all add: response_with_def)
  from Do_2xx_NoDest[OF cl st, of demo_json, where ?'b = unit]
  show ?thesis by (simp add: body_of_def Body_Close_def)
qed

section \<open>CheckResponse and the error Do returns\<close>

lemma decode_member_other:
  "\<not> json_matches J ''Response'' k \<Longrightarrow>
   \<exists>e'. decode_member J (a, r, e) (k, v) = (a, r, e') \<and> Response e' = Response e"
  by (cases v) auto

lemma foldl_decode_member_other:
  "\<not> list_ex (\<lambda>(k, v). json_matches J ''Response'' k) kvs \<Longrightarrow>
   \<exists>e'. foldl (decode_member J) (a, r, e) kvs = (a, r, e') \<and> Response e' = Response e"
proof (induction kvs arbitrary: e)
  case Nil
  show ?case by simp
next
  case (Cons kv kvs)
  obtain k v where kv: "kv = (k, v)" by (cases kv)
  from Cons.prems kv have nk: "\<not> json_matches J ''Response'' k"
    and rest: "\<not> list_ex (\<lambda>(k, v). json_matches J ''Response'' k) kvs" by simp_all
  from decode_member_other[OF nk, of a r e v]
  obtain e1 where s1: "decode_member J (a, r, e) (k, v) = (a, r, e1)" and r1: "Response e1 = Response e"
    by blast
  have "foldl (decode_member J) (a, r, e) (kv # kvs) = foldl (decode_member J) (a, r, e1) kvs"
    by (simp only: kv foldl_Cons s1)
  with Cons.IH[OF rest, of e1] r1 show ?case
    by simp
qed

lemma json_Unmarshal_other:
  assumes "\<not> names_Response J data"
  shows "\<exists>e'. json_Unmarshal J data r e = (r, e') \<and> Response e' = Response e"
proof (cases "json_parse J data")
  case None
  then show ?thesis by (simp add: json_Unmarshal_def)
next
  case (Some j)
  show ?thesis
  proof (cases j)
    case (JObject kvs)
    with assms Some have "\<not> list_ex (\<lambda>(k, v). json_matches J ''Response'' k) kvs"
      by (simp add: names_Response_def)
    from foldl_decode_member_other[OF this, of True r e]
    show ?thesis by (auto simp: json_Unmarshal_def Some JObject)
  qed (use Some in \<open>simp_all add: json_Unmarshal_def\<close>)
qed

lemma CheckResponse_nil_iff:
  "snd (snd (CheckResponse J r body)) = None \<longleftrightarrow> (200 \<le> StatusCode r \<and> StatusCode r \<le> 299)"
  by (auto simp: CheckResponse_def Let_def split: prod.splits)

lemma CheckResponse_keeps_Response:
  assumes "\<not> (200 \<le> StatusCode r \<and> StatusCode r \<le> 299)" "\<not> names_Response J (concat (pending body))"
  shows "\<exists>e body'. CheckResponse J r body = (r, body', Some e) \<and> Response e = Some r"
proof (cases "closed body")
  case True
  with assms(1) show ?thesis by (simp add: CheckResponse_def ReadAll_def)
next
  case False
  show ?thesis
  proof (cases "fault body = None \<and> concat (pending body) \<noteq> []")
    case True
    from json_Unmarshal_other[OF assms(2), of r "\<lparr>Response = Some r, Message = []\<rparr>"]
    obtain e' where "json_Unmarshal J (concat (pending body)) r \<lparr>Response = Some r, Message = []\<rparr> = (r, e')"
      and "Response e' = Some r" by auto
    with assms(1) False True show ?thesis
      by (simp add: CheckResponse_def ReadAll_def)
  next
    case f: False
    with assms(1) False show ?thesis
      by (auto simp: CheckResponse_def ReadAll_def)
  qed
qed

lemma ascii_lower_names:
  "ascii_lower ''Response'' = ''response''" "ascii_lower ''Message'' = ''message''"
  "ascii_lower ''response'' = ''response''" "ascii_lower ''message'' = ''message''"
  by code_simp+

lemma demo_json_simps:
  \<open>json_parse demo_json ''{"message":"invalid hostname"}'' = Some (JObject [(''message'', JString ''invalid hostname'')])\<close>
  \<open>json_parse demo_json ''{"response":null}'' = Some (JObject [(''response'', JNull)])\<close>
  "json_matches demo_json ''Response'' ''message'' = False"
  "json_matches demo_json ''Message'' ''message'' = True"
  "json_matches demo_json ''Response'' ''response'' = True"
  by (simp_all add: demo_json_def ascii_lower_names)

lemma CheckResponse_message:
  \<open>\<not> (200 \<le> StatusCode r \<and> StatusCode r \<le> 299) \<Longrightarrow>
   CheckResponse demo_json r (body_of [''{"message":"invalid hostname"}''])
     = (r, body_of [], Some \<lparr>Response = Some r, Message = ''invalid hostname''\<rparr>)\<close>
  by (simp add: CheckResponse_def ReadAll_def body_of_def json_Unmarshal_def demo_json_simps)

text \<open>
  The \<open>Response\<close> field of \<open>ErrorResponse\<close> is exported and carries no tag that hides it
  from \<open>encoding/json\<close>, so an error body can address it: after the body
  \<open>{"response":null}\<close> the error that \<open>CheckResponse\<close> returns has a \<open>nil\<close> response.
\<close>

lemma CheckResponse_null_Response:
  \<open>\<not> (200 \<le> StatusCode r \<and> StatusCode r \<le> 299) \<Longrightarrow>
   CheckResponse demo_json r (body_of [''{"response":null}''])
     = (r, body_of [], Some \<lparr>Response = None, Message = []\<rparr>)\<close>
  by (simp add: CheckResponse_def ReadAll_def body_of_def json_Unmarshal_def demo_json_simps)

text \<open>
  C1, as amended. \<open>CheckResponse\<close> returns no error exactly when the status code is in
  200..299. For any other status it returns an \<open>ErrorResponse\<close>; unless the error body is
  a JSON object with a key that matches the field \<open>Response\<close>, the response embedded in
  it is the checked response, with the same status code. \<open>Do\<close> returns that
  \<open>ErrorResponse\<close> for every response outside 200..299. For a response inside 200..299
  \<open>Do\<close> returns a \<open>nil\<close> error when the destination is \<open>nil\<close> or a writer, and the
  result of the JSON decoding when it is any other value: the decoder's error when that
  fails.
\<close>

theorem CheckResponse_and_Do_errors:
  "(snd (snd (CheckResponse J r body)) = None \<longleftrightarrow> (200 \<le> StatusCode r \<and> StatusCode r \<le> 299)) \<and>
   (\<not> (200 \<le> StatusCode r \<and> StatusCode r \<le> 299) \<and> \<not> names_Response J (concat (pending body)) \<longrightarrow>
      (\<exists>e. snd (snd (CheckResponse J r body)) = Some e \<and> Response e = Some r \<and>
           map_option StatusCode (Response e) = Some (StatusCode r))) \<and>
   (client c req = Inr (r, body) \<and> \<not> (200 \<le> StatusCode r \<and> StatusCode r \<le> 299) \<longrightarrow>
      (\<exists>e. snd (snd (CheckResponse J r body)) = Some e \<and> ret_error (Do J c req v) = Some (ApiError e))) \<and>
   (client c req = Inr (r, body) \<and> 200 \<le> StatusCode r \<and> StatusCode r \<le> 299 \<longrightarrow>
      ret_error (Do J c req v) =
        (case v of
           NoDest \<Rightarrow> None
         | Dest x (Some wr) dec \<Rightarrow> None
         | Dest x None dec \<Rightarrow> map_option LibError (snd (snd (dec body x)))))"
proof (intro conjI impI)
  show "snd (snd (CheckResponse J r body)) = None \<longleftrightarrow> (200 \<le> StatusCode r \<and> StatusCode r \<le> 299)"
    by (rule CheckResponse_nil_iff)
next
  assume "\<not> (200 \<le> StatusCode r \<and> StatusCode r \<le> 299) \<and> \<not> names_Response J (concat (pending body))"
  then obtain e body' where "CheckResponse J r body = (r, body', Some e)" "Response e = Some r"
    using CheckResponse_keeps_Response[of r J body] by blast
  then show "\<exists>e. snd (snd (CheckResponse J r body)) = Some e \<and> Response e = Some r \<and>
           map_option StatusCode (Response e) = Some (StatusCode r)"
    by simp
next
  assume "client c req = Inr (r, body) \<and> \<not> (200 \<le> StatusCode r \<and> StatusCode r \<le> 299)"
  then obtain resp1 body1 e where "CheckResponse J r body = (resp1, body1, Some e)"
      "ret_error (Do J c req v) = Some (ApiError e)"
    using Do_not_2xx[of c req r body J v] by blast
  then show "\<exists>e. snd (snd (CheckResponse J r body)) = Some e \<and> ret_error (Do J c req v) = Some (ApiError e)"
    by simp
next
  assume a: "client c req = Inr (r, body) \<and> 200 \<le> StatusCode r \<and> StatusCode r \<le> 299"
  show "ret_error (Do J c req v) =
        (case v of
           NoDest \<Rightarrow> None
         | Dest x (Some wr) dec \<Rightarrow> None
         | Dest x None dec \<Rightarrow> map_option LibError (snd (snd (dec body x))))"
  proof (cases v)
    case NoDest
    with a show ?thesis by (simp add: Do_2xx_NoDest)
  next
    case (Dest x wo dec)
    show ?thesis
    proof (cases wo)
      case None
      with a Dest show ?thesis by (simp add: Do_2xx_Decode)
    next
      case (Some wr)
      with a Dest show ?thesis by (simp add: Do_2xx_Writer)
    qed
  qed
qed

theorem CheckResponse_and_Do_errors_witness:
  \<open>(\<exists>e. snd (snd (CheckResponse demo_json ((response_with 422 [])\<lparr>Request := Some get_req\<rparr>)
          (body_of [''{"message":"invalid hostname"}'']))) = Some e \<and>
        map_option StatusCode (Response e) = Some 422) \<and>
   ret_error (Do demo_json
       (NewClient (answers (response_with 422 []) [''{"message":"invalid hostname"}'']) baseURL ''consumer'' ''key'')
       get_req (NoDest :: unit dest))
     = Some (ApiError \<lparr>Response = Some ((response_with 422 [])\<lparr>Request := Some get_req\<rparr>),
                       Message = ''invalid hostname''\<rparr>) \<and>
   ret_error (Do demo_json
       (NewClient (answers (response_with 204 []) []) baseURL ''consumer'' ''key'')
       get_req (NoDest :: unit dest)) = None\<close>
proof -
  let ?r = "(response_with 422 [])\<lparr>Request := Some get_req\<rparr> :: string Http_Response"
  let ?body = \<open>body_of [''{"message":"invalid hostname"}'']\<close>
  let ?c = \<open>NewClient (answers (response_with 422 []) [''{"message":"invalid hostname"}'']) baseURL ''consumer'' ''key''\<close>
  let ?r2 = "(response_with 204 [])\<lparr>Request := Some get_req\<rparr> :: string Http_Response"
  let ?c2 = "NewClient (answers (response_with 204 []) []) baseURL ''consumer'' ''key''"
  have st: "\<not> (200 \<le> StatusCode ?r \<and> StatusCode ?r \<le> 299)" "StatusCode ?r = 422"
    by (simp_all add: response_with_def)
  have nn: "\<not> names_Response demo_json (concat (pending ?body))"
    by (simp add: names_Response_def body_of_def demo_json_simps)
  have cl: "client ?c get_req = Inr (?r, ?body)"
    by (simp add: NewClient_def answers_def)
  have cl2: "client ?c2 get_req = Inr (?r2, body_of [])"
    by (simp add: NewClient_def answers_def)
  have st2: "200 \<le> StatusCode ?r2 \<and> StatusCode ?r2 \<le> 299"
    by (simp add: response_with_def)
  note t = CheckResponse_and_Do_errors[of demo_json ?r ?body ?c get_req "NoDest :: unit dest"]
  note t2 = CheckResponse_and_Do_errors[of demo_json ?r2 "body_of []" ?c2 get_req "NoDest :: unit dest"]
  from t st nn have "\<exists>e. snd (snd (CheckResponse demo_json ?r ?body)) = Some e \<and>
        map_option StatusCode (Response e) = Some 422"
    by auto
  moreover from t st cl
  have "\<exists>e. snd (snd (CheckResponse demo_json ?r ?body)) = Some e \<and>
          ret_error (Do demo_json ?c get_req (NoDest :: unit dest)) = Some (ApiError e)"
    by blast
  then have "ret_error (Do demo_json ?c get_req (NoDest :: unit dest))
     = Some (ApiError \<lparr>Response = Some ?r, Message = ''invalid hostname''\<rparr>)"
    by (simp add: CheckResponse_message[OF st(1)])
  moreover from t2 cl2 st2 have "ret_error (Do demo_json ?c2 get_req (NoDest :: unit dest)) = None"
    by simp
  ultimately show ?thesis by blast
qed

text \<open>
  C1 as stated fails: a response with status 200 whose body the decoder of the
  destination rejects makes \<open>Do\<close> return the decoder's error.
\<close>

theorem Do_decode_error_on_2xx:
  "client (NewClient (answers (response_with 200 []) [''not json'']) baseURL ''consumer'' ''key'') get_req
     = Inr ((response_with 200 [])\<lparr>Request := Some get_req\<rparr>, body_of [''not json'']) \<and>
   StatusCode ((response_with 200 [])\<lparr>Request := Some get_req\<rparr> :: string Http_Response) = 200 \<and>
   ret_error (Do demo_json (NewClient (answers (response_with 200 []) [''not json'']) baseURL ''consumer'' ''key'')
      get_req (Dest () None json_fails)) = Some (LibError (Err ''invalid character in JSON value''))"
proof -
  let ?r = "(response_with 200 [])\<lparr>Request := Some get_req\<rparr> :: string Http_Response"
  let ?c = "NewClient (answers (response_with 200 []) [''not json'']) baseURL ''consumer'' ''key''"
  have cl: "client ?c get_req = Inr (?r, body_of [''not json''])"
    by (simp add: NewClient_def answers_def)
  have st: "200 \<le> StatusCode ?r" "StatusCode ?r \<le> 299" "StatusCode ?r = 200"
    by (simp_all add: response_with_def)
  have "ret_error (Do demo_json ?c get_req (Dest () None json_fails))
      = Some (LibError (Err ''invalid character in JSON value''))"
    by (simp add: Do_2xx_Decode[OF cl st(1,2)] json_fails_def)
  with cl st(3) show ?thesis by blast
qed

section \<open>The text of an ErrorResponse\<close>

lemma FormatInt_examples: "FormatInt 422 = ''422''" "FormatInt 404 = ''404''" "FormatInt (- 7) = ''-7''"
  by code_simp+

text \<open>
  C7, as amended. For every \<open>ErrorResponse\<close> whose \<open>Response\<close> and whose response's
  \<open>Request\<close> are not \<open>nil\<close>, \<open>Error\<close> returns the request method, a space, the request
  URL, a colon and a space, the status code in decimal, a space and the message, in
  this order, whether the message is empty or not; the decimal status code reads back
  as the status code.
\<close>

theorem Error_format:
  "Response r = Some resp \<Longrightarrow> Request resp = Some req \<Longrightarrow>
   Error U r = Inr (Method req @ '' '' @ (case URL req of None \<Rightarrow> ''<nil>'' | Some u \<Rightarrow> url_String U u)
                    @ '': '' @ FormatInt (StatusCode resp) @ '' '' @ Message r) \<and>
   (- (2 ^ 63) \<le> StatusCode resp \<and> StatusCode resp < 2 ^ 63 \<longrightarrow>
      Atoi (FormatInt (StatusCode resp)) = (StatusCode resp, None))"
  by (simp add: Error_def Atoi_FormatInt)

theorem Error_format_witness:
  "Error demo_url \<lparr>Response = Some ((response_with 422 [])\<lparr>Request := Some get_req\<rparr>), Message = ''invalid hostname''\<rparr>
     = Inr ''GET https://api.packet.net/plans: 422 invalid hostname'' \<and>
   Error demo_url \<lparr>Response = Some ((response_with 404 [])\<lparr>Request := Some get_req\<rparr>), Message = []\<rparr>
     = Inr ''GET https://api.packet.net/plans: 404 ''"
proof -
  let ?r1 = "(response_with 422 [])\<lparr>Request := Some get_req\<rparr> :: string Http_Response"
  let ?r2 = "(response_with 404 [])\<lparr>Request := Some get_req\<rparr> :: string Http_Response"
  from Error_format[of "\<lparr>Response = Some ?r1, Message = ''invalid hostname''\<rparr>" ?r1 get_req demo_url]
  have "Error demo_url \<lparr>Response = Some ?r1, Message = ''invalid hostname''\<rparr>
     = Inr ''GET https://api.packet.net/plans: 422 invalid hostname''"
    by (simp add: response_with_def get_req_def demo_url_def FormatInt_examples)
  moreover
  from Error_format[of "\<lparr>Response = Some ?r2, Message = []\<rparr>" ?r2 get_req demo_url]
  have "Error demo_url \<lparr>Response = Some ?r2, Message = []\<rparr> = Inr ''GET https://api.packet.net/plans: 404 ''"
    by (simp add: response_with_def get_req_def demo_url_def FormatInt_examples)
  ultimately show ?thesis by blast
qed

text \<open>
  C7 as stated fails: \<open>Error\<close> returns no text for an \<open>ErrorResponse\<close> with a \<open>nil\<close>
  \<open>Response\<close>, nor for one whose response has a \<open>nil\<close> \<open>Request\<close>; it dereferences
  both. \<open>CheckResponse\<close> returns an \<open>ErrorResponse\<close> with a \<open>nil\<close> \<open>Response\<close> for
  the error body \<open>{"response":null}\<close>.
\<close>

theorem Error_nil_Response_panics:
  \<open>Error demo_url \<lparr>Response = None, Message = ''invalid hostname''\<rparr> = Inl NilPointerDereference \<and>
   map_option (Error demo_url)
     (snd (snd (CheckResponse demo_json ((response_with 500 [])\<lparr>Request := Some get_req\<rparr>)
        (body_of [''{"response":null}'']))))
     = Some (Inl NilPointerDereference) \<and>
   Error demo_url \<lparr>Response = Some (response_with 500 []), Message = ''invalid hostname''\<rparr>
     = Inl NilPointerDereference\<close>
proof -
  have "\<not> (200 \<le> StatusCode ((response_with 500 [])\<lparr>Request := Some get_req\<rparr> :: string Http_Response) \<and>
       StatusCode ((response_with 500 [])\<lparr>Request := Some get_req\<rparr> :: string Http_Response) \<le> 299)"
    by (simp add: response_with_def)
  from CheckResponse_null_Response[OF this] show ?thesis
    by (simp add: Error_def response_with_def)
qed

section \<open>The request NewRequest builds\<close>

lemma canonical_fixed_keys:
  "CanonicalMIMEHeaderKey ''X-Auth-Token'' = ''X-Auth-Token''"
  "CanonicalMIMEHeaderKey ''X-Consumer-Token'' = ''X-Consumer-Token''"
  "CanonicalMIMEHeaderKey ''Content-Type'' = ''Content-Type''"
  "CanonicalMIMEHeaderKey ''Accept'' = ''Accept''"
  "CanonicalMIMEHeaderKey ''User-Agent'' = ''User-Agent''"
  by code_simp+

lemma fixed_headers:
  "Header_Add (Header_Add (Header_Add (Header_Add (Header_Add Map.empty ''X-Auth-Token'' k)
       ''X-Consumer-Token'' t) ''Content-Type'' mediaType) ''Accept'' mediaType) ''User-Agent'' userAgent
   = [''X-Auth-Token'' \<mapsto> [k], ''X-Consumer-Token'' \<mapsto> [t], ''Content-Type'' \<mapsto> [''application/json''],
      ''Accept'' \<mapsto> [''application/json''], ''User-Agent'' \<mapsto> [''packngo/0.1.0'']]"
  by (simp add: Header_Add_def canonical_fixed_keys mediaType_def userAgent_def libraryVersion_def)

lemma NewRequest_built:
  assumes "url_Parse U path = Inr rel"
    and "body = None \<and> buf = [] \<or> body = Some b \<and> marshal b = Inr j \<and> buf = j @ [CHR 0x0A]"
  shows "NewRequest U marshal c method path body =
     (case http_NewRequest U method (url_String U (url_ResolveReference U (BaseURL c) rel)) buf of
        Inl err \<Rightarrow> Inl err
      | Inr req \<Rightarrow>
          Inr (req\<lparr>Close := True,
                   req_Header := Header_Add (Header_Add (Header_Add (Header_Add (Header_Add (req_Header req)
                      ''X-Auth-Token'' (ApiKey c)) ''X-Consumer-Token'' (ConsumerToken c))
                      ''Content-Type'' mediaType) ''Accept'' mediaType) ''User-Agent'' userAgent\<rparr>))"
  using assms by (auto simp: NewRequest_def Let_def split: sum.splits)

lemma validMethod_examples: "validMethod ''POST''" "\<not> validMethod ''BAD METHOD''"
  by code_simp+

text \<open>
  C6, as amended. \<open>NewRequest\<close> returns an error and no request when the relative path
  does not parse, when the body fails JSON serialisation, and also when
  \<open>http.NewRequest\<close> refuses the method or cannot parse the string of the resolved URL.
  Otherwise it returns a request with the method (\<open>GET\<close> for an empty one), the
  serialised body followed by a newline (nothing for a \<open>nil\<close> body), \<open>Close\<close> set, and
  exactly the five headers \<open>X-Auth-Token\<close> (the API key), \<open>X-Consumer-Token\<close>,
  \<open>Content-Type\<close> and \<open>Accept\<close> (\<open>application/json\<close>) and \<open>User-Agent\<close>
  (\<open>packngo/0.1.0\<close>). The URL of the request equals the base URL resolved with the
  path whenever the string of that resolved URL parses back to it and it has no empty
  port to remove: \<open>http.NewRequest\<close> is given the string, so that in general the URL
  of the request is what it makes of that string.
\<close>

theorem NewRequest_result:
  "(url_Parse U path = Inl err \<longrightarrow> NewRequest U marshal c method path body = Inl err) \<and>
   (url_Parse U path = Inr rel \<and> body = Some b \<and> marshal b = Inl err \<longrightarrow>
      NewRequest U marshal c method path body = Inl err) \<and>
   (url_Parse U path = Inr rel \<and>
    (body = None \<and> buf = [] \<or> body = Some b \<and> marshal b = Inr j \<and> buf = j @ [CHR 0x0A]) \<longrightarrow>
      (\<not> validMethod (if method = [] then ''GET'' else method) \<longrightarrow>
         NewRequest U marshal c method path body = Inl (Err ''net/http: invalid method'')) \<and>
      (validMethod (if method = [] then ''GET'' else method) \<and>
       url_Parse U (url_String U (url_ResolveReference U (BaseURL c) rel)) = Inl err \<longrightarrow>
         NewRequest U marshal c method path body = Inl err) \<and>
      (validMethod (if method = [] then ''GET'' else method) \<and>
       url_Parse U (url_String U (url_ResolveReference U (BaseURL c) rel))
         = Inr (url_ResolveReference U (BaseURL c) rel) \<and>
       removeEmptyPort U (url_ResolveReference U (BaseURL c) rel) = url_ResolveReference U (BaseURL c) rel \<longrightarrow>
         NewRequest U marshal c method path body =
           Inr \<lparr>Method = (if method = [] then ''GET'' else method),
                URL = Some (url_ResolveReference U (BaseURL c) rel),
                req_Header = [''X-Auth-Token'' \<mapsto> [ApiKey c], ''X-Consumer-Token'' \<mapsto> [ConsumerToken c],
                              ''Content-Type'' \<mapsto> [''application/json''], ''Accept'' \<mapsto> [''application/json''],
                              ''User-Agent'' \<mapsto> [''packngo/0.1.0'']],
                req_Body = buf, Close = True\<rparr>) \<and>
      (validMethod (if method = [] then ''GET'' else method) \<and>
       url_Parse U (url_String U (url_ResolveReference U (BaseURL c) rel)) = Inr u \<longrightarrow>
         NewRequest U marshal c method path body =
           Inr \<lparr>Method = (if method = [] then ''GET'' else method), URL = Some (removeEmptyPort U u),
                req_Header = [''X-Auth-Token'' \<mapsto> [ApiKey c], ''X-Consumer-Token'' \<mapsto> [ConsumerToken c],
                              ''Content-Type'' \<mapsto> [''application/json''], ''Accept'' \<mapsto> [''application/json''],
                              ''User-Agent'' \<mapsto> [''packngo/0.1.0'']],
                req_Body = buf, Close = True\<rparr>))"
proof (intro conjI impI)
  assume "url_Parse U path = Inl err"
  then show "NewRequest U marshal c method path body = Inl err"
    by (simp add: NewRequest_def)
next
  assume "url_Parse U path = Inr rel \<and> body = Some b \<and> marshal b = Inl err"
  then show "NewRequest U marshal c method path body = Inl err"
    by (simp add: NewRequest_def)
next
  assume a: "url_Parse U path = Inr rel \<and>
    (body = None \<and> buf = [] \<or> body = Some b \<and> marshal b = Inr j \<and> buf = j @ [CHR 0x0A])"
  note built = NewRequest_built[of U path rel body buf b marshal j c "method"]
  {
    assume "\<not> validMethod (if method = [] then ''GET'' else method)"
    with a built show "NewRequest U marshal c method path body = Inl (Err ''net/http: invalid method'')"
      by (simp add: http_NewRequest_def Let_def)
  next
    assume "validMethod (if method = [] then ''GET'' else method) \<and>
       url_Parse U (url_String U (url_ResolveReference U (BaseURL c) rel)) = Inl err"
    with a built show "NewRequest U marshal c method path body = Inl err"
      by (simp add: http_NewRequest_def Let_def)
  next
    assume "validMethod (if method = [] then ''GET'' else method) \<and>
       url_Parse U (url_String U (url_ResolveReference U (BaseURL c) rel))
         = Inr (url_ResolveReference U (BaseURL c) rel) \<and>
       removeEmptyPort U (url_ResolveReference U (BaseURL c) rel) = url_ResolveReference U (BaseURL c) rel"
    with a built show "NewRequest U marshal c method path body =
           Inr \<lparr>Method = (if method = [] then ''GET'' else method),
                URL = Some (url_ResolveReference U (BaseURL c) rel),
                req_Header = [''X-Auth-Token'' \<mapsto> [ApiKey c], ''X-Consumer-Token'' \<mapsto> [ConsumerToken c],
                              ''Content-Type'' \<mapsto> [''application/json''], ''Accept'' \<mapsto> [''application/json''],
                              ''User-Agent'' \<mapsto> [''packngo/0.1.0'']],
                req_Body = buf, Close = True\<rparr>"
      by (simp add: http_NewRequest_def Let_def fixed_headers)
  next
    assume "validMethod (if method = [] then ''GET'' else method) \<and>
       url_Parse U (url_String U (url_ResolveReference U (BaseURL c) rel)) = Inr u"
    with a built show "NewRequest U marshal c method path body =
           Inr \<lparr>Method = (if method = [] then ''GET'' else method), URL = Some (removeEmptyPort U u),
                req_Header = [''X-Auth-Token'' \<mapsto> [ApiKey c], ''X-Consumer-Token'' \<mapsto> [ConsumerToken c],
                              ''Content-Type'' \<mapsto> [''application/json''], ''Accept'' \<mapsto> [''application/json''],
                              ''User-Agent'' \<mapsto> [''packngo/0.1.0'']],
                req_Body = buf, Close = True\<rparr>"
      by (simp add: http_NewRequest_def Let_def fixed_headers)
  }
qed

theorem NewRequest_result_witness:
  \<open>url_ResolveReference demo_url (BaseURL (NewClient (refuses ''unused'') baseURL ''consumer'' ''key'')) ''devices''
     = ''https://api.packet.net/devices'' \<and>
   NewRequest demo_url demo_marshal (NewClient (refuses ''unused'') baseURL ''consumer'' ''key'')
      ''POST'' ''devices'' (Some (Hostname ''x''))
     = Inr \<lparr>Method = ''POST'', URL = Some ''https://api.packet.net/devices'',
            req_Header = [''X-Auth-Token'' \<mapsto> [''key''], ''X-Consumer-Token'' \<mapsto> [''consumer''],
                          ''Content-Type'' \<mapsto> [''application/json''], ''Accept'' \<mapsto> [''application/json''],
                          ''User-Agent'' \<mapsto> [''packngo/0.1.0'']],
            req_Body = ''{"hostname":"x"}'' @ [CHR 0x0A], Close = True\<rparr> \<and>
   NewRequest demo_url demo_marshal (NewClient (refuses ''unused'') baseURL ''consumer'' ''key'')
      ''GET'' ''%zz'' None = Inl (Err ''invalid URL escape'') \<and>
   NewRequest demo_url demo_marshal (NewClient (refuses ''unused'') baseURL ''consumer'' ''key'')
      ''POST'' ''devices'' (Some Channel) = Inl (Err ''json: unsupported type: chan int'')\<close>
proof -
  let ?c = "NewClient (refuses ''unused'') baseURL ''consumer'' ''key'' :: string Client"
  have p1: "url_Parse demo_url ''devices'' = Inr ''devices''" by (simp add: demo_url_def)
  have p2: "url_Parse demo_url ''%zz'' = Inl (Err ''invalid URL escape'')" by (simp add: demo_url_def)
  have r: "url_ResolveReference demo_url (BaseURL ?c) ''devices'' = ''https://api.packet.net/devices''"
    by (simp add: demo_url_def NewClient_def baseURL_def)
  have p3: "url_Parse demo_url (url_String demo_url (url_ResolveReference demo_url (BaseURL ?c) ''devices''))
      = Inr (url_ResolveReference demo_url (BaseURL ?c) ''devices'')"
    by (simp add: demo_url_def NewClient_def baseURL_def)
  have p4: "removeEmptyPort demo_url (url_ResolveReference demo_url (BaseURL ?c) ''devices'')
      = url_ResolveReference demo_url (BaseURL ?c) ''devices''"
    by (simp add: demo_url_def)
  have m1: \<open>demo_marshal (Hostname ''x'') = Inr ''{"hostname":"x"}''\<close> by (simp add: demo_marshal_def)
  have m2: "demo_marshal Channel = Inl (Err ''json: unsupported type: chan int'')" by (simp add: demo_marshal_def)
  have f: "ApiKey ?c = ''key''" "ConsumerToken ?c = ''consumer''"
    by (simp_all add: NewClient_def)
  from NewRequest_result[of demo_url "''devices''" _ demo_marshal ?c "''POST''" "Some (Hostname ''x'')"
      "''devices''" "Hostname ''x''" \<open>''{"hostname":"x"}'' @ [CHR 0x0A]\<close> \<open>''{"hostname":"x"}''\<close>]
    p1 p3 p4 m1 validMethod_examples(1)
  have \<open>NewRequest demo_url demo_marshal ?c ''POST'' ''devices'' (Some (Hostname ''x''))
     = Inr \<lparr>Method = ''POST'', URL = Some (url_ResolveReference demo_url (BaseURL ?c) ''devices''),
            req_Header = [''X-Auth-Token'' \<mapsto> [ApiKey ?c], ''X-Consumer-Token'' \<mapsto> [ConsumerToken ?c],
                          ''Content-Type'' \<mapsto> [''application/json''], ''Accept'' \<mapsto> [''application/json''],
                          ''User-Agent'' \<mapsto> [''packngo/0.1.0'']],
            req_Body = ''{"hostname":"x"}'' @ [CHR 0x0A], Close = True\<rparr>\<close>
    by simp
  then have a: \<open>NewRequest demo_url demo_marshal ?c ''POST'' ''devices'' (Some (Hostname ''x''))
     = Inr \<lparr>Method = ''POST'', URL = Some ''https://api.packet.net/devices'',
            req_Header = [''X-Auth-Token'' \<mapsto> [''key''], ''X-Consumer-Token'' \<mapsto> [''consumer''],
                          ''Content-Type'' \<mapsto> [''application/json''], ''Accept'' \<mapsto> [''application/json''],
                          ''User-Agent'' \<mapsto> [''packngo/0.1.0'']],
            req_Body = ''{"hostname":"x"}'' @ [CHR 0x0A], Close = True\<rparr>\<close>
    by (simp only: r f)
  from NewRequest_result[of demo_url "''%zz''" "Err ''invalid URL escape''" demo_marshal ?c "''GET''" None] p2
  have b: "NewRequest demo_url demo_marshal ?c ''GET'' ''%zz'' None = Inl (Err ''invalid URL escape'')"
    by blast
  from NewRequest_result[of demo_url "''devices''" "Err ''json: unsupported type: chan int''" demo_marshal ?c
      "''POST''" "Some Channel" "''devices''" Channel] p1 m2
  have c: "NewRequest demo_url demo_marshal ?c ''POST'' ''devices'' (Some Channel)
      = Inl (Err ''json: unsupported type: chan int'')"
    by blast
  from r a b c show ?thesis by blast
qed

text \<open>
  C6 as stated fails: with a path that parses and no body to serialise, a method that
  is not a token still makes \<open>NewRequest\<close> return an error and no request.
\<close>

theorem NewRequest_invalid_method:
  "url_Parse demo_url ''plans'' = Inr ''plans'' \<and>
   NewRequest demo_url demo_marshal (NewClient (refuses ''unused'') baseURL ''consumer'' ''key'')
      ''BAD METHOD'' ''plans'' None = Inl (Err ''net/http: invalid method'')"
proof -
  have p: "url_Parse demo_url ''plans'' = Inr ''plans''" by (simp add: demo_url_def)
  have "NewRequest demo_url demo_marshal (NewClient (refuses ''unused'') baseURL ''consumer'' ''key'')
      ''BAD METHOD'' ''plans'' None = Inl (Err ''net/http: invalid method'')"
    using validMethod_examples(2)
    by (simp add: NewRequest_def p http_NewRequest_def Let_def)
  with p show ?thesis by blast
qed

end
